theory Spec2Isabelle
  imports Complex_Main "HOL-Library.Word"
begin

unbundle bit_operations_syntax

section \<open>JavaScript values\<close>

text \<open>
  A JavaScript string is a sequence of UTF-16 code units; a code unit is modelled by its
  number. \<open>utf16\<close> turns an ASCII literal of the source into that sequence.
\<close>

type_synonym jsstring = "nat list"

definition utf16 :: "string \<Rightarrow> jsstring" where
  "utf16 s = map of_char s"

text \<open>
  The values a \<open>throw\<close> can carry here: the built-in error kinds that the platform
  functions used by the source raise, \<open>Error message\<close> for \<open>new Error(message)\<close>, and
  \<open>RemoteFailure\<close> for whatever the remote client library rejects with.
\<close>

datatype js_error =
    Error jsstring
  | TypeError
  | SyntaxError
  | RangeError
  | InvalidCharacterError
  | NotSupportedError
  | RemoteFailure jsstring

text \<open>
  A JavaScript number. A finite double is a rational; a number read from a decimal text
  is represented by the decimal's value, of which the double is the rounding.
\<close>

datatype jsnumber = NaN | Infinity bool | Finite rat

section \<open>Audio decoding\<close>

subsection \<open>The platform's \<open>atob\<close>\<close>

text \<open>
  \<open>atob\<close> is the browser's forgiving base64 decoder (HTML standard): ASCII whitespace is
  removed; when the length is then a multiple of four, one or two trailing \<open>=\<close> are
  removed; a length of the form \<open>4k + 1\<close> or a character outside the alphabet fails with
  an InvalidCharacterError (\<open>None\<close>); every character gives six bits, every 24 bits three
  bytes, and a rest of 12 or 18 bits gives one or two bytes. The result is a string whose
  code units are the bytes.
\<close>

definition ascii_whitespace :: "nat \<Rightarrow> bool" where
  "ascii_whitespace c = (c = 9 \<or> c = 10 \<or> c = 12 \<or> c = 13 \<or> c = 32)"

definition base64_value :: "nat \<Rightarrow> nat option" where
  "base64_value c =
     (if 65 \<le> c \<and> c \<le> 90 then Some (c - 65)
      else if 97 \<le> c \<and> c \<le> 122 then Some (c - 71)
      else if 48 \<le> c \<and> c \<le> 57 then Some (c + 4)
      else if c = 43 then Some 62
      else if c = 47 then Some 63
      else None)"

definition strip_padding :: "jsstring \<Rightarrow> jsstring" where
  "strip_padding s =
     (if length s mod 4 = 0 \<and> s \<noteq> [] \<and> last s = 61
      then (if butlast s \<noteq> [] \<and> last (butlast s) = 61 then butlast (butlast s) else butlast s)
      else s)"

fun sextets_to_bytes :: "nat list \<Rightarrow> nat list" where
  "sextets_to_bytes (a # b # c # d # rest) =
     (let n = ((a * 64 + b) * 64 + c) * 64 + d
      in (n div 65536) # ((n div 256) mod 256) # (n mod 256) # sextets_to_bytes rest)"
| "sextets_to_bytes [a, b, c] =
     (let n = ((a * 64 + b) * 64 + c) div 4 in [n div 256, n mod 256])"
| "sextets_to_bytes [a, b] = [(a * 64 + b) div 16]"
| "sextets_to_bytes [a] = []"
| "sextets_to_bytes [] = []"

definition atob :: "jsstring \<Rightarrow> jsstring option" where
  "atob base64 =
     (let s = strip_padding (filter (\<lambda>c. \<not> ascii_whitespace c) base64)
      in if length s mod 4 = 1 then None
         else if list_all (\<lambda>c. base64_value c \<noteq> None) s
         then Some (sextets_to_bytes (map (\<lambda>c. the (base64_value c)) s))
         else None)"

subsection \<open>\<open>decode\<close>\<close>

text \<open>
  The loop of \<open>decode\<close> stores \<open>charCodeAt(i)\<close> at index \<open>i\<close> of a fresh \<open>Uint8Array\<close>
  of the string's length, for every \<open>i\<close>; a store into a \<open>Uint8Array\<close> keeps the low
  eight bits. It throws only where \<open>atob\<close> does.
\<close>

definition decode :: "jsstring \<Rightarrow> js_error + 8 word list" where
  "decode base64 =
     (case atob base64 of
        None \<Rightarrow> Inl InvalidCharacterError
      | Some binaryString \<Rightarrow>
          (let len = length binaryString;
               bytes = replicate len (0 :: 8 word)
           in Inr (fold (\<lambda>i bytes. bytes[i := of_nat (binaryString ! i)]) [0 ..< len] bytes)))"

subsection \<open>Typed arrays and audio buffers\<close>

text \<open>
  \<open>new Int16Array(buffer)\<close> views an \<open>ArrayBuffer\<close> as 16-bit signed integers, two bytes
  each, low byte first on the little-endian platforms the application runs on. It
  throws a RangeError when the buffer's byte length is not a multiple of two.
\<close>

definition int16_le :: "8 word \<Rightarrow> 8 word \<Rightarrow> 16 word" where
  "int16_le lo hi = ucast lo OR push_bit 8 (ucast hi)"

fun int16_view :: "8 word list \<Rightarrow> 16 word list" where
  "int16_view (lo # hi # rest) = int16_le lo hi # int16_view rest"
| "int16_view [b] = []"
| "int16_view [] = []"

definition Int16Array :: "8 word list \<Rightarrow> js_error + 16 word list" where
  "Int16Array buffer =
     (if length buffer mod 2 \<noteq> 0 then Inl RangeError else Inr (int16_view buffer))"

text \<open>
  An \<open>AudioBuffer\<close>: its frame count (the platform's \<open>length\<close>), its sample rate and one
  \<open>Float32Array\<close> per channel. Every sample the source stores is a 16-bit integer
  divided by \<open>2 ^ 15\<close>, which a 32-bit float holds exactly, so samples are rationals.
\<close>

record AudioBuffer =
  numberOfChannels :: nat
  frameCount :: nat
  sampleRate :: rat
  channels :: "rat list list"

text \<open>
  The \<open>AudioContext\<close> argument is used through \<open>createBuffer\<close> only. The Web Audio
  standard has it throw a NotSupportedError when the channel count or the frame count is
  zero or the sample rate is outside the range the implementation supports (the field
  \<open>supportsSampleRate\<close>); otherwise the buffer is filled with zeros.
\<close>

record AudioContext =
  supportsSampleRate :: "rat \<Rightarrow> bool"

definition createBuffer :: "AudioContext \<Rightarrow> nat \<Rightarrow> nat \<Rightarrow> rat \<Rightarrow> js_error + AudioBuffer" where
  "createBuffer ctx numChannels len rate =
     (if numChannels = 0 \<or> len = 0 \<or> \<not> supportsSampleRate ctx rate
      then Inl NotSupportedError
      else Inr \<lparr> numberOfChannels = numChannels, frameCount = len, sampleRate = rate,
                 channels = replicate numChannels (replicate len 0) \<rparr>)"

subsection \<open>\<open>decodeAudioData\<close>\<close>

text \<open>
  The inner loop writes sample \<open>i\<close> of one channel, for \<open>i\<close> from 0 up to the frame
  count; the outer loop runs over the channels (there is one).
\<close>

definition fill_channel :: "16 word list \<Rightarrow> nat \<Rightarrow> nat \<Rightarrow> nat \<Rightarrow> rat list \<Rightarrow> rat list" where
  "fill_channel dataInt16 numChannels frames channel channelData =
     fold (\<lambda>i channelData.
             channelData[i := of_int (sint (dataInt16 ! (i * numChannels + channel))) / 32768])
          [0 ..< frames] channelData"

definition fill_buffer :: "16 word list \<Rightarrow> nat \<Rightarrow> nat \<Rightarrow> AudioBuffer \<Rightarrow> AudioBuffer" where
  "fill_buffer dataInt16 numChannels frames buffer =
     fold (\<lambda>channel buffer.
             buffer\<lparr> channels :=
               (channels buffer)[channel :=
                  fill_channel dataInt16 numChannels frames channel (channels buffer ! channel)] \<rparr>)
          [0 ..< numChannels] buffer"

definition decodeAudioData :: "jsstring \<Rightarrow> AudioContext \<Rightarrow> rat \<Rightarrow> js_error + AudioBuffer" where
  "decodeAudioData base64Data ctx rate =
     (case decode base64Data of
        Inl e \<Rightarrow> Inl e
      | Inr bytes \<Rightarrow>
          (case Int16Array bytes of
             Inl e \<Rightarrow> Inl e
           | Inr dataInt16 \<Rightarrow>
               (let numChannels = 1;
                    frames = length dataInt16 div numChannels
                in case createBuffer ctx numChannels frames rate of
                     Inl e \<Rightarrow> Inl e
                   | Inr buffer \<Rightarrow> Inr (fill_buffer dataInt16 numChannels frames buffer))))"

text \<open>The default of the third parameter: \<open>sampleRate: number = 24000\<close>.\<close>

definition default_sampleRate :: rat where
  "default_sampleRate = 24000"

text \<open>
  The reading of a byte pair that the specification asks for: the pair \<open>lo, hi\<close> is the
  unsigned number \<open>lo + 256 * hi\<close>, taken as a two's complement 16-bit integer.
\<close>

definition int16_value :: "8 word \<Rightarrow> 8 word \<Rightarrow> int" where
  "int16_value lo hi =
     (let u = uint lo + 256 * uint hi in if u < 32768 then u else u - 65536)"

text \<open>
  A context for the examples: it supports the sample rates that every implementation of
  the Web Audio standard has to support.
\<close>

definition standard_ctx :: AudioContext where
  "standard_ctx = \<lparr> supportsSampleRate = (\<lambda>rate. 8000 \<le> rate \<and> rate \<le> 96000) \<rparr>"

section \<open>The remote service\<close>

text \<open>
  A value as \<open>JSON.parse\<close> returns it, with \<open>undefined\<close> for what a property access
  gives where the property is absent. An object is the list of its properties.
\<close>

datatype jsvalue =
    JUndefined
  | JNull
  | JBool bool
  | JNum jsnumber
  | JStr jsstring
  | JArr "jsvalue list"
  | JObj "(jsstring \<times> jsvalue) list"

text \<open>The truthiness that \<open>if (v)\<close>, \<open>!v\<close> and \<open>v || w\<close> test.\<close>

fun truthy :: "jsvalue \<Rightarrow> bool" where
  "truthy JUndefined = False"
| "truthy JNull = False"
| "truthy (JBool b) = b"
| "truthy (JNum NaN) = False"
| "truthy (JNum (Infinity negative)) = True"
| "truthy (JNum (Finite q)) = (q \<noteq> 0)"
| "truthy (JStr s) = (s \<noteq> [])"
| "truthy (JArr vs) = True"
| "truthy (JObj props) = True"

definition or_else :: "jsvalue \<Rightarrow> jsvalue \<Rightarrow> jsvalue" where
  "or_else a b = (if truthy a then a else b)"

definition nullish :: "jsvalue \<Rightarrow> bool" where
  "nullish v = (v = JUndefined \<or> v = JNull)"

text \<open>
  Property access. \<open>get v key\<close> is \<open>v[key]\<close> for a value that is neither \<open>null\<close> nor
  \<open>undefined\<close> and a key that no built-in prototype defines (as all keys of the response
  schema): the property of an object, \<open>undefined\<close> on anything else. \<open>member v key\<close> is
  \<open>v.key\<close>, a TypeError on \<open>null\<close> and \<open>undefined\<close>; \<open>optional_member v key\<close> is
  \<open>v?.key\<close>.
\<close>

fun get :: "jsvalue \<Rightarrow> jsstring \<Rightarrow> jsvalue" where
  "get (JObj props) key = (case map_of props key of Some v \<Rightarrow> v | None \<Rightarrow> JUndefined)"
| "get v key = JUndefined"

definition member :: "jsvalue \<Rightarrow> jsstring \<Rightarrow> js_error + jsvalue" where
  "member v key = (if nullish v then Inl TypeError else Inr (get v key))"

definition optional_member :: "jsvalue \<Rightarrow> jsstring \<Rightarrow> jsvalue" where
  "optional_member v key = (if nullish v then JUndefined else get v key)"

text \<open>
  The part of the client library's \<open>GenerateContentResponse\<close> that the source reads. Every
  property is optional; \<open>None\<close> is \<open>undefined\<close>. \<open>response_text\<close> is the value of the
  response's \<open>text\<close> accessor.
\<close>

record Blob =
  data :: "jsstring option"

record Part =
  inlineData :: "Blob option"

record Content =
  parts :: "Part list option"

record GroundingChunkWeb =
  uri :: "jsstring option"

record GroundingChunk =
  web :: "GroundingChunkWeb option"

record GroundingMetadata =
  groundingChunks :: "GroundingChunk list option"

record Candidate =
  content :: "Content option"
  groundingMetadata :: "GroundingMetadata option"

record GenerateContentResponse =
  response_text :: "jsstring option"
  candidates :: "Candidate list option"

text \<open>
  The three requests of the source, by what varies in them: the translation request (model
  \<open>gemini-3-flash-preview\<close>) carries the MIME type, the file data, the target language
  of the prompt and the thinking budget; the location request (\<open>gemini-2.5-flash\<close> with
  the maps tool) the address; the speech request (\<open>gemini-2.5-flash-preview-tts\<close>, voice
  Kore) the text. The service \<open>ai.models.generateContent\<close> answers a request with a
  response or rejects with an error.
\<close>

datatype mode = speed | detailed

datatype request =
    TranslateRequest jsstring jsstring jsstring nat
  | LocationRequest jsstring
  | SpeechRequest jsstring

type_synonym GoogleGenAI = "request \<Rightarrow> js_error + GenerateContentResponse"

text \<open>\<open>xs[0]\<close>, \<open>undefined\<close> on an empty array.\<close>

definition first :: "'a list \<Rightarrow> 'a option" where
  "first xs = (case xs of [] \<Rightarrow> None | x # rest \<Rightarrow> Some x)"

section \<open>\<open>translateDocument\<close>\<close>

record OfficialDocInfo =
  isOfficial :: bool
  goNumber :: jsvalue
  department :: jsvalue
  date :: jsvalue
  subject :: jsvalue

record TranslationResult =
  text' :: jsvalue
  summary :: jsvalue
  actionItems :: jsvalue
  address :: jsvalue
  officialInfo :: "OfficialDocInfo option"

text \<open>
  The body of the \<open>try\<close> block. \<open>JSON_parse\<close> is the platform's parser: \<open>None\<close> where it
  throws a SyntaxError. \<open>result.isOfficialDocument\<close> is the first property access on the
  parsed value and throws on \<open>null\<close>; the later ones then cannot throw.
\<close>

definition translate_request :: "jsstring \<Rightarrow> jsstring \<Rightarrow> jsstring \<Rightarrow> mode \<Rightarrow> request" where
  "translate_request base64Data mimeType targetLanguage md =
     (let thinkingBudget = (if md = speed then 0 else 2048)
      in TranslateRequest mimeType base64Data targetLanguage thinkingBudget)"

definition translateDocument_try ::
  "GoogleGenAI \<Rightarrow> (jsstring \<Rightarrow> jsvalue option) \<Rightarrow> jsstring \<Rightarrow> jsstring \<Rightarrow> jsstring \<Rightarrow> mode
     \<Rightarrow> js_error + TranslationResult" where
  "translateDocument_try ai JSON_parse base64Data mimeType targetLanguage md =
     (case ai (translate_request base64Data mimeType targetLanguage md) of
       Inl e \<Rightarrow> Inl e
     | Inr response \<Rightarrow>
         (if response_text response \<noteq> None \<and> response_text response \<noteq> Some []
          then (case JSON_parse (the (response_text response)) of
                  None \<Rightarrow> Inl SyntaxError
                | Some result \<Rightarrow>
                    (case member result (utf16 ''isOfficialDocument'') of
                       Inl e \<Rightarrow> Inl e
                     | Inr flag \<Rightarrow>
                         (let details = get result (utf16 ''officialDetails'');
                              info =
                                (if truthy flag
                                 then Some \<lparr> isOfficial = True,
                                             goNumber = optional_member details (utf16 ''goNumber''),
                                             department = optional_member details (utf16 ''department''),
                                             date = optional_member details (utf16 ''date''),
                                             subject = optional_member details (utf16 ''subject'') \<rparr>
                                 else None)
                          in Inr \<lparr> text' = or_else (get result (utf16 ''translation''))
                                             (JStr (utf16 ''Could not extract text.'')),
                                   summary = or_else (get result (utf16 ''summary''))
                                               (JStr (utf16 ''No summary available.'')),
                                   actionItems = or_else (get result (utf16 ''actionItems'')) (JArr []),
                                   address = or_else (get result (utf16 ''address'')) JNull,
                                   officialInfo = info \<rparr>)))
          else Inr \<lparr> text' = JStr (utf16 ''Could not extract text.''), summary = JStr [],
                     actionItems = JArr [], address = JNull, officialInfo = None \<rparr>))"

text \<open>The \<open>catch\<close>: whatever was thrown is logged and replaced by one error.\<close>

definition translateDocument ::
  "GoogleGenAI \<Rightarrow> (jsstring \<Rightarrow> jsvalue option) \<Rightarrow> jsstring \<Rightarrow> jsstring \<Rightarrow> jsstring \<Rightarrow> mode
     \<Rightarrow> js_error + TranslationResult" where
  "translateDocument ai JSON_parse base64Data mimeType targetLanguage md =
     (case translateDocument_try ai JSON_parse base64Data mimeType targetLanguage md of
        Inl error \<Rightarrow> Inl (Error (utf16 ''Failed to translate document.''))
      | Inr r \<Rightarrow> Inr r)"

section \<open>\<open>resolveLocation\<close>\<close>

subsection \<open>The two regular expressions\<close>

text \<open>
  \<open>/LAT:\s*(-?\d+(\.\d+)?)/i\<close> and \<open>/LNG:\s*(-?\d+(\.\d+)?)/i\<close> differ in the marker
  only. Without the \<open>u\<close> flag a regular expression works on code units. \<open>\d\<close> is an
  ASCII digit; \<open>\s\<close> is the white space and the line terminators of the language; under
  the \<open>i\<close> flag two code units match when their upper-case forms agree, and no code unit
  outside ASCII matches an ASCII one.
\<close>

definition is_digit :: "nat \<Rightarrow> bool" where
  "is_digit c = (48 \<le> c \<and> c \<le> 57)"

definition is_space :: "nat \<Rightarrow> bool" where
  "is_space c =
     (c \<in> {9, 10, 11, 12, 13, 32, 160, 5760, 8232, 8233, 8239, 8287, 12288, 65279}
      \<or> (8192 \<le> c \<and> c \<le> 8202))"

definition canonicalize :: "nat \<Rightarrow> nat" where
  "canonicalize c = (if 97 \<le> c \<and> c \<le> 122 then c - 32 else c)"

text \<open>
  Each piece of the pattern, matched at the start of the input. The quantifiers are
  greedy, and giving back what one of them took never lets a later piece match: after
  fewer spaces comes a space, after a dropped sign comes the sign, and nothing follows
  the optional group. So the first attempt at a position decides it.
\<close>

fun literal :: "jsstring \<Rightarrow> jsstring \<Rightarrow> jsstring option" where
  "literal [] s = Some s"
| "literal (p # ps) [] = None"
| "literal (p # ps) (c # cs) =
     (if canonicalize c = canonicalize p then literal ps cs else None)"

definition optional_minus :: "jsstring \<Rightarrow> jsstring \<times> jsstring" where
  "optional_minus s =
     (case s of c # rest \<Rightarrow> if c = 45 then ([c], rest) else ([], s) | [] \<Rightarrow> ([], s))"

definition optional_fraction :: "jsstring \<Rightarrow> jsstring" where
  "optional_fraction s =
     (case s of
        c # rest \<Rightarrow> if c = 46 \<and> takeWhile is_digit rest \<noteq> [] then c # takeWhile is_digit rest else []
      | [] \<Rightarrow> [])"

text \<open>\<open>(-?\d+(\.\d+)?)\<close>: the text of the first capture group.\<close>

definition number_group :: "jsstring \<Rightarrow> jsstring option" where
  "number_group s =
     (let (sign, s1) = optional_minus s;
          digits = takeWhile is_digit s1
      in if digits = [] then None
         else Some (sign @ digits @ optional_fraction (dropWhile is_digit s1)))"

definition match_here :: "jsstring \<Rightarrow> jsstring \<Rightarrow> jsstring option" where
  "match_here marker s =
     (case literal marker s of
        None \<Rightarrow> None
      | Some rest \<Rightarrow> number_group (dropWhile is_space rest))"

text \<open>
  \<open>text.match(re)\<close> tries the positions from left to right: \<open>None\<close> is \<open>null\<close>, and
  \<open>Some capture\<close> is a match whose element 1 is \<open>capture\<close>.
\<close>

fun match_group :: "jsstring \<Rightarrow> jsstring \<Rightarrow> jsstring option" where
  "match_group marker [] = match_here marker []"
| "match_group marker (c # cs) =
     (case match_here marker (c # cs) of
        Some capture \<Rightarrow> Some capture
      | None \<Rightarrow> match_group marker cs)"

subsection \<open>The platform's \<open>parseFloat\<close>\<close>

text \<open>
  \<open>parseFloat\<close> on a decimal literal without exponent, which is all a capture group of
  the two expressions can hold: leading white space, a sign, digits and a fraction. It is
  \<open>NaN\<close> when there is no digit. The result stands for the double nearest to it.
\<close>

definition digits_value :: "jsstring \<Rightarrow> nat" where
  "digits_value ds = foldl (\<lambda>n d. 10 * n + (d - 48)) 0 ds"

definition parseFloat :: "jsstring \<Rightarrow> jsnumber" where
  "parseFloat s =
     (let s0 = dropWhile is_space s;
          (negative, s1) =
            (case s0 of
               c # rest \<Rightarrow> if c = 45 then (True, rest) else if c = 43 then (False, rest) else (False, s0)
             | [] \<Rightarrow> (False, s0));
          whole = takeWhile is_digit s1;
          s2 = dropWhile is_digit s1;
          fraction = (case s2 of c # rest \<Rightarrow> if c = 46 then takeWhile is_digit rest else [] | [] \<Rightarrow> [])
      in if whole = [] \<and> fraction = [] then NaN
         else Finite ((if negative then - 1 else 1)
                * (of_nat (digits_value whole) + of_nat (digits_value fraction) / 10 ^ length fraction)))"

subsection \<open>The grounding references\<close>

text \<open>
  The loop over the grounding chunks: the first chunk whose \<open>chunk.web?.uri\<close> is truthy
  (present and not the empty string) gives the map link, and the loop stops there.
\<close>

definition web_uri :: "GroundingChunk \<Rightarrow> jsstring option" where
  "web_uri chunk = Option.bind (web chunk) uri"

fun scan_chunks :: "GroundingChunk list \<Rightarrow> jsstring option" where
  "scan_chunks [] = None"
| "scan_chunks (chunk # rest) =
     (if web_uri chunk \<noteq> None \<and> web_uri chunk \<noteq> Some []
      then web_uri chunk
      else scan_chunks rest)"

subsection \<open>The function\<close>

text \<open>
  A property that holds \<open>undefined\<close> and a property that is missing are both \<open>None\<close>: the
  result \<open>{}\<close> of the \<open>catch\<close> is the record of three \<open>None\<close>.
\<close>

record LocationResult =
  latitude :: "jsnumber option"
  longitude :: "jsnumber option"
  mapUri :: "jsstring option"

text \<open>\<open>response.candidates?.[0]?.groundingMetadata?.groundingChunks\<close>\<close>

definition grounding_chunks :: "GenerateContentResponse \<Rightarrow> GroundingChunk list option" where
  "grounding_chunks response =
     Option.bind (Option.bind (Option.bind (candidates response) first)
       groundingMetadata) groundingChunks"

definition resolveLocation_try :: "GoogleGenAI \<Rightarrow> jsstring \<Rightarrow> js_error + LocationResult" where
  "resolveLocation_try ai addr =
     (case ai (LocationRequest addr) of
        Inl e \<Rightarrow> Inl e
      | Inr response \<Rightarrow>
          (let txt = (case response_text response of None \<Rightarrow> [] | Some t \<Rightarrow> t);
               latMatch = match_group (utf16 ''LAT:'') txt;
               lngMatch = match_group (utf16 ''LNG:'') txt;
               both = (latMatch \<noteq> None \<and> lngMatch \<noteq> None);
               chunks = grounding_chunks response
           in Inr \<lparr> latitude = (if both then Some (parseFloat (the latMatch)) else None),
                     longitude = (if both then Some (parseFloat (the lngMatch)) else None),
                     mapUri = (case chunks of None \<Rightarrow> None | Some cs \<Rightarrow> scan_chunks cs) \<rparr>))"

definition resolveLocation :: "GoogleGenAI \<Rightarrow> jsstring \<Rightarrow> js_error + LocationResult" where
  "resolveLocation ai addr =
     (case resolveLocation_try ai addr of
        Inl error \<Rightarrow> Inr \<lparr> latitude = None, longitude = None, mapUri = None \<rparr>
      | Inr r \<Rightarrow> Inr r)"

section \<open>\<open>generateSpeech\<close>\<close>

text \<open>
  \<open>response.candidates?.[0]?.content?.parts?.[0]?.inlineData?.data\<close>, then the test
  \<open>!audioData\<close>, which holds for \<open>undefined\<close> and for the empty string.
\<close>

definition audio_data :: "GenerateContentResponse \<Rightarrow> jsstring option" where
  "audio_data response =
     Option.bind (Option.bind (Option.bind (Option.bind (Option.bind (Option.bind
       (candidates response) first) content) parts) first) inlineData) data"

definition generateSpeech_try :: "GoogleGenAI \<Rightarrow> jsstring \<Rightarrow> js_error + jsstring" where
  "generateSpeech_try ai txt =
     (case ai (SpeechRequest txt) of
        Inl e \<Rightarrow> Inl e
      | Inr response \<Rightarrow>
          (let audioData = audio_data response
           in if audioData = None \<or> audioData = Some []
              then Inl (Error (utf16 ''No audio data received.''))
              else Inr (the audioData)))"

definition generateSpeech :: "GoogleGenAI \<Rightarrow> jsstring \<Rightarrow> js_error + jsstring" where
  "generateSpeech ai txt =
     (case generateSpeech_try ai txt of
        Inl error \<Rightarrow> Inl (Error (utf16 ''Failed to generate speech.''))
      | Inr audioData \<Rightarrow> Inr audioData)"

section \<open>What the specification says, as predicates\<close>

text \<open>
  The language of \<open>/MARKER\s*(-?\d+(\.\d+)?)/i\<close>, read off the pattern: the marker in any
  case, any white space, an optional minus sign, one or more digits, and optionally a
  point with one or more digits. The pattern matches a text when a word of the language
  occurs in it.
\<close>

definition number_language :: "jsstring \<Rightarrow> bool" where
  "number_language s =
     (\<exists>sign ds frac. s = sign @ ds @ frac \<and> (sign = [] \<or> sign = [45])
        \<and> ds \<noteq> [] \<and> list_all is_digit ds
        \<and> (frac = [] \<or> (\<exists>fs. frac = 46 # fs \<and> fs \<noteq> [] \<and> list_all is_digit fs)))"

definition pattern_language :: "jsstring \<Rightarrow> jsstring \<Rightarrow> bool" where
  "pattern_language marker s =
     (\<exists>m ws num. s = m @ ws @ num \<and> map canonicalize m = map canonicalize marker
        \<and> list_all is_space ws \<and> number_language num)"

definition pattern_occurs :: "jsstring \<Rightarrow> jsstring \<Rightarrow> bool" where
  "pattern_occurs marker txt = (\<exists>pre s post. txt = pre @ s @ post \<and> pattern_language marker s)"

text \<open>A grounding reference exposes a web URI when it has one that is not empty.\<close>

definition exposes_uri :: "GroundingChunk \<Rightarrow> bool" where
  "exposes_uri chunk = (web_uri chunk \<noteq> None \<and> web_uri chunk \<noteq> Some [])"

section \<open>Services and inputs of the examples\<close>

definition replies :: "GenerateContentResponse \<Rightarrow> GoogleGenAI" where
  "replies response = (\<lambda>request. Inr response)"

definition rejects :: "js_error \<Rightarrow> GoogleGenAI" where
  "rejects e = (\<lambda>request. Inl e)"

definition text_response :: "jsstring \<Rightarrow> GenerateContentResponse" where
  "text_response t = \<lparr> response_text = Some t, candidates = None \<rparr>"

text \<open>
  Two payloads that conform to the response schema, with the JSON texts they are parsed
  from (34 is the double quote): one that is not an official document and still carries
  official details, and one that is an official document and carries none.
\<close>

definition quoted :: "jsstring \<Rightarrow> jsstring" where
  "quoted s = 34 # s @ [34]"

definition unofficial_text :: jsstring where
  "unofficial_text =
     utf16 ''{'' @ quoted (utf16 ''translation'') @ utf16 '':'' @ quoted (utf16 ''T'')
     @ utf16 '','' @ quoted (utf16 ''summary'') @ utf16 '':'' @ quoted (utf16 ''S'')
     @ utf16 '','' @ quoted (utf16 ''isOfficialDocument'') @ utf16 '':false''
     @ utf16 '','' @ quoted (utf16 ''actionItems'') @ utf16 '':[]''
     @ utf16 '','' @ quoted (utf16 ''officialDetails'') @ utf16 '':{''
     @ quoted (utf16 ''goNumber'') @ utf16 '':'' @ quoted (utf16 ''GO 1'') @ utf16 ''}}''"

definition unofficial_payload :: jsvalue where
  "unofficial_payload =
     JObj [(utf16 ''translation'', JStr (utf16 ''T'')),
           (utf16 ''summary'', JStr (utf16 ''S'')),
           (utf16 ''isOfficialDocument'', JBool False),
           (utf16 ''actionItems'', JArr []),
           (utf16 ''officialDetails'', JObj [(utf16 ''goNumber'', JStr (utf16 ''GO 1''))])]"

definition official_text :: jsstring where
  "official_text =
     utf16 ''{'' @ quoted (utf16 ''translation'') @ utf16 '':'' @ quoted (utf16 ''T'')
     @ utf16 '','' @ quoted (utf16 ''summary'') @ utf16 '':'' @ quoted (utf16 ''S'')
     @ utf16 '','' @ quoted (utf16 ''isOfficialDocument'') @ utf16 '':true''
     @ utf16 '','' @ quoted (utf16 ''actionItems'') @ utf16 '':[]}''"

definition official_payload :: jsvalue where
  "official_payload =
     JObj [(utf16 ''translation'', JStr (utf16 ''T'')),
           (utf16 ''summary'', JStr (utf16 ''S'')),
           (utf16 ''isOfficialDocument'', JBool True),
           (utf16 ''actionItems'', JArr [])]"

text \<open>
  Grounding references of all kinds (no web entry, no URI, an empty URI, two with a URI), a
  geocoding response that carries them, and a speech response with one audio part.
\<close>

definition example_chunks :: "GroundingChunk list" where
  "example_chunks =
     [\<lparr> web = None \<rparr>,
      \<lparr> web = Some \<lparr> uri = None \<rparr> \<rparr>,
      \<lparr> web = Some \<lparr> uri = Some [] \<rparr> \<rparr>,
      \<lparr> web = Some \<lparr> uri = Some (utf16 ''https://maps.example/a'') \<rparr> \<rparr>,
      \<lparr> web = Some \<lparr> uri = Some (utf16 ''https://maps.example/b'') \<rparr> \<rparr>]"

definition grounded_response :: GenerateContentResponse where
  "grounded_response =
     \<lparr> response_text = Some (utf16 ''LAT: 12.9716, LNG: 77.5946''),
       candidates = Some [\<lparr> content = None,
                            groundingMetadata = Some \<lparr> groundingChunks = Some example_chunks \<rparr> \<rparr>] \<rparr>"

definition audio_response :: GenerateContentResponse where
  "audio_response =
     \<lparr> response_text = None,
       candidates = Some [\<lparr> content = Some \<lparr> parts = Some [\<lparr> inlineData =
                              Some \<lparr> data = Some (utf16 ''AAAAQADA/38='') \<rparr> \<rparr>] \<rparr>,
                            groundingMetadata = None \<rparr>] \<rparr>"

section \<open>Properties of the audio decoder\<close>

lemma fold_update_upt:
  "n \<le> length xs \<Longrightarrow> fold (\<lambda>i ys. ys[i := f i]) [0 ..< n] xs = map f [0 ..< n] @ drop n xs"
proof (induction n)
  case 0
  then show ?case by simp
next
  case (Suc n)
  then have "n < length xs" by simp
  then have "drop n xs = xs ! n # drop (Suc n) xs"
    by (simp add: Cons_nth_drop_Suc)
  with Suc show ?case
    by (simp add: list_update_append)
qed

lemma decode_bytes: "atob base64 = Some s \<Longrightarrow> decode base64 = Inr (map of_nat s)"
proof -
  assume a: "atob base64 = Some s"
  have "fold (\<lambda>i bytes. bytes[i := (of_nat (s ! i) :: 8 word)]) [0 ..< length s]
          (replicate (length s) 0)
        = map (\<lambda>i. of_nat (s ! i)) [0 ..< length s]"
    by (simp add: fold_update_upt)
  also have "\<dots> = map of_nat s"
    by (rule nth_equalityI) simp_all
  finally show ?thesis
    using a by (simp add: decode_def Let_def)
qed

lemma length_int16_view: "length (int16_view bs) = length bs div 2"
  by (induction bs rule: int16_view.induct) simp_all

lemma nth_int16_view:
  "i < length bs div 2 \<Longrightarrow> int16_view bs ! i = int16_le (bs ! (2 * i)) (bs ! (2 * i + 1))"
proof (induction bs arbitrary: i rule: int16_view.induct)
  case (1 lo hi rest)
  then show ?case by (cases i) simp_all
qed simp_all

lemma fill_channel_mono:
  "length channelData = frames \<Longrightarrow>
   fill_channel dataInt16 (Suc 0) frames 0 channelData =
     map (\<lambda>i. of_int (sint (dataInt16 ! i)) / 32768) [0 ..< frames]"
  by (simp add: fill_channel_def fold_update_upt)

lemma fill_buffer_mono:
  "channels buffer = [channelData] \<Longrightarrow> length channelData = frames \<Longrightarrow>
   fill_buffer dataInt16 (Suc 0) frames buffer =
     buffer\<lparr> channels := [map (\<lambda>i. of_int (sint (dataInt16 ! i)) / 32768) [0 ..< frames]] \<rparr>"
  by (simp add: fill_buffer_def fill_channel_mono)

text \<open>The 16-bit word built from a byte pair has the value the specification asks for.\<close>

lemma int16_le_add: "int16_le lo hi = ucast lo + push_bit 8 (ucast hi)"
  unfolding int16_le_def
  by (rule disjunctive_add [symmetric]) (auto simp add: bit_simps dest: bit_imp_le_length)

lemma int16_le_of_int: "int16_le lo hi = word_of_int (uint lo + 256 * uint hi)"
proof -
  have "word_of_int (uint lo + 256 * uint hi) = (ucast lo + 256 * ucast hi :: 16 word)"
    by simp
  also have "\<dots> = int16_le lo hi"
    by (simp add: int16_le_add push_bit_eq_mult)
  finally show ?thesis by simp
qed

lemma uint_byte_less: "uint (b :: 8 word) < 256"
  using uint_bounded [of b] by simp

lemma uint_int16_le: "uint (int16_le lo hi) = uint lo + 256 * uint hi"
proof -
  have "0 \<le> uint lo" "0 \<le> uint hi" by simp_all
  moreover note uint_byte_less [of lo] uint_byte_less [of hi]
  ultimately have "(uint lo + 256 * uint hi) mod 65536 = uint lo + 256 * uint hi"
    by (intro mod_pos_pos_trivial) linarith+
  then show ?thesis
    unfolding int16_le_of_int uint_word_of_int by simp
qed

lemma sint_16: "sint (w :: 16 word) = (if uint w < 32768 then uint w else uint w - 65536)"
proof -
  have b: "0 \<le> uint w" "uint w < 65536"
    using uint_bounded [of w] by simp_all
  have s: "sint w = (uint w + 32768) mod 65536 - 32768"
    by (simp add: sint_uint signed_take_bit_eq_take_bit_shift take_bit_eq_mod)
  show ?thesis
  proof (cases "uint w < 32768")
    case True
    with b have "(uint w + 32768) mod 65536 = uint w + 32768"
      by (intro mod_pos_pos_trivial) linarith+
    with True s show ?thesis by simp
  next
    case False
    with b have "(uint w - 32768) mod 65536 = uint w - 32768"
      by (intro mod_pos_pos_trivial) linarith+
    moreover have "uint w + 32768 = uint w - 32768 + 65536"
      by simp
    ultimately have "(uint w + 32768) mod 65536 = uint w - 32768"
      by (simp only: mod_add_self2)
    with False s show ?thesis by simp
  qed
qed

lemma sint_int16_le: "sint (int16_le lo hi) = int16_value lo hi"
  by (simp only: sint_16 uint_int16_le int16_value_def Let_def)

lemma atob_example: "atob (utf16 ''AAAAQADA/38='') = Some [0, 0, 0, 64, 0, 192, 255, 127]"
  by (simp add: utf16_def atob_def strip_padding_def ascii_whitespace_def base64_value_def Let_def)

lemma decode_example: "decode (utf16 ''AAAAQADA/38='') = Inr [0, 0, 0, 64, 0, 192, 255, 127]"
  using decode_bytes [OF atob_example] by simp

lemma decode_two_samples: "decode (utf16 ''AQD//w=='') = Inr [1, 0, 255, 255]"
proof -
  have "atob (utf16 ''AQD//w=='') = Some [1, 0, 255, 255]"
    by (simp add: utf16_def atob_def strip_padding_def ascii_whitespace_def base64_value_def Let_def)
  from decode_bytes [OF this] show ?thesis by simp
qed

lemma decode_one_byte: "decode (utf16 ''AA=='') = Inr [0]"
proof -
  have "atob (utf16 ''AA=='') = Some [0]"
    by (simp add: utf16_def atob_def strip_padding_def ascii_whitespace_def base64_value_def Let_def)
  from decode_bytes [OF this] show ?thesis by simp
qed

text \<open>
  Claim C4. When the base64 input decodes to a non-empty, even number of bytes and the
  context supports the sample rate, \<open>decodeAudioData\<close> returns a one-channel buffer with
  one frame per byte pair, and sample \<open>i\<close> is the signed 16-bit little-endian value of
  bytes \<open>2i\<close> and \<open>2i + 1\<close> divided by 32768. The base64 text \<open>AAAAQADA/38=\<close> holds the
  16-bit values 0, 16384, -16384 and 32767, low byte first, and decodes to the four
  samples 0, 1/2, -1/2 and 32767/32768.
\<close>

theorem decodeAudioData_samples:
  "(decode base64Data = Inr bytes \<and> even (length bytes) \<and> bytes \<noteq> []
      \<and> supportsSampleRate ctx rate \<longrightarrow>
      decodeAudioData base64Data ctx rate =
        Inr \<lparr> numberOfChannels = 1, frameCount = length bytes div 2, sampleRate = rate,
              channels = [map (\<lambda>i. of_int (int16_value (bytes ! (2 * i)) (bytes ! (2 * i + 1))) / 32768)
                              [0 ..< length bytes div 2]] \<rparr>)
   \<and> (supportsSampleRate ctx rate \<longrightarrow>
      decodeAudioData (utf16 ''AAAAQADA/38='') ctx rate =
        Inr \<lparr> numberOfChannels = 1, frameCount = 4, sampleRate = rate,
              channels = [[0, 1 / 2, - (1 / 2), 32767 / 32768]] \<rparr>)"
proof (intro conjI impI)
  assume a: "decode base64Data = Inr bytes \<and> even (length bytes) \<and> bytes \<noteq> []
    \<and> supportsSampleRate ctx rate"
  then have len: "0 < length bytes div 2"
    by (cases bytes rule: int16_view.cases) auto
  have view: "Int16Array bytes = Inr (int16_view bytes)"
    using a by (simp add: Int16Array_def)
  have buf: "createBuffer ctx (Suc 0) (length bytes div 2) rate =
      Inr \<lparr> numberOfChannels = 1, frameCount = length bytes div 2, sampleRate = rate,
            channels = [replicate (length bytes div 2) 0] \<rparr>"
    using a len by (simp add: createBuffer_def)
  have samples:
    "map (\<lambda>i. (of_int (sint (int16_view bytes ! i)) :: rat) / 32768) [0 ..< length bytes div 2]
      = map (\<lambda>i. of_int (int16_value (bytes ! (2 * i)) (bytes ! (2 * i + 1))) / 32768)
          [0 ..< length bytes div 2]"
    by (rule map_cong) (simp_all add: nth_int16_view sint_int16_le)
  show "decodeAudioData base64Data ctx rate =
        Inr \<lparr> numberOfChannels = 1, frameCount = length bytes div 2, sampleRate = rate,
              channels = [map (\<lambda>i. of_int (int16_value (bytes ! (2 * i)) (bytes ! (2 * i + 1))) / 32768)
                              [0 ..< length bytes div 2]] \<rparr>"
    using a samples
    by (simp add: decodeAudioData_def view buf length_int16_view fill_buffer_mono Let_def)
next
  assume s: "supportsSampleRate ctx rate"
  show "decodeAudioData (utf16 ''AAAAQADA/38='') ctx rate =
        Inr \<lparr> numberOfChannels = 1, frameCount = 4, sampleRate = rate,
              channels = [[0, 1 / 2, - (1 / 2), 32767 / 32768]] \<rparr>"
    using s
    by (simp add: decodeAudioData_def decode_example Int16Array_def int16_le_def createBuffer_def
          fill_buffer_def fill_channel_def upt_conv_Cons)
qed

theorem decodeAudioData_samples_witness:
  "decode (utf16 ''AQD//w=='') = Inr [1, 0, 255, 255]
   \<and> even (length [1, 0, 255, 255 :: 8 word])
   \<and> supportsSampleRate standard_ctx default_sampleRate
   \<and> decodeAudioData (utf16 ''AQD//w=='') standard_ctx default_sampleRate =
        Inr \<lparr> numberOfChannels = 1, frameCount = 2, sampleRate = 24000,
              channels = [[1 / 32768, - (1 / 32768)]] \<rparr>
   \<and> decodeAudioData (utf16 ''AAAAQADA/38='') standard_ctx default_sampleRate =
        Inr \<lparr> numberOfChannels = 1, frameCount = 4, sampleRate = 24000,
              channels = [[0, 1 / 2, - (1 / 2), 32767 / 32768]] \<rparr>"
  using decodeAudioData_samples
          [of "utf16 ''AQD//w==''" "[1, 0, 255, 255]" standard_ctx default_sampleRate]
  by (simp add: decode_two_samples standard_ctx_def default_sampleRate_def int16_value_def
        upt_conv_Cons)

text \<open>
  Claim C10. When the base64 input decodes to an odd number of bytes, \<open>decodeAudioData\<close>
  fails with the RangeError of the \<open>Int16Array\<close> constructor; no buffer is returned and
  no byte is dropped.
\<close>

theorem decodeAudioData_odd_length:
  "decode base64Data = Inr bytes \<Longrightarrow> odd (length bytes) \<Longrightarrow>
   decodeAudioData base64Data ctx rate = Inl RangeError"
  by (simp add: decodeAudioData_def Int16Array_def odd_iff_mod_2_eq_one)

theorem decodeAudioData_odd_length_witness:
  "decode (utf16 ''AA=='') = Inr [0] \<and> odd (length [0 :: 8 word])
   \<and> decodeAudioData (utf16 ''AA=='') standard_ctx default_sampleRate = Inl RangeError"
  using decodeAudioData_odd_length [of "utf16 ''AA==''" "[0]" standard_ctx default_sampleRate]
  by (simp add: decode_one_byte)

section \<open>Properties of \<open>translateDocument\<close>\<close>

text \<open>The body of the \<open>try\<close> block, branch by branch.\<close>

lemma translateDocument_try_empty:
  assumes "ai (translate_request base64Data mimeType targetLanguage md) = Inr response"
    and "response_text response = None \<or> response_text response = Some []"
  shows "translateDocument_try ai JSON_parse base64Data mimeType targetLanguage md =
     Inr \<lparr> text' = JStr (utf16 ''Could not extract text.''), summary = JStr [],
           actionItems = JArr [], address = JNull, officialInfo = None \<rparr>"
  using assms by (auto simp add: translateDocument_try_def)

lemma translateDocument_try_parsed:
  assumes "ai (translate_request base64Data mimeType targetLanguage md) = Inr response"
    and "response_text response = Some t" and "t \<noteq> []"
    and "JSON_parse t = Some payload"
  shows "translateDocument_try ai JSON_parse base64Data mimeType targetLanguage md =
    (if nullish payload then Inl TypeError else
     Inr \<lparr> text' = or_else (get payload (utf16 ''translation'')) (JStr (utf16 ''Could not extract text.'')),
           summary = or_else (get payload (utf16 ''summary'')) (JStr (utf16 ''No summary available.'')),
           actionItems = or_else (get payload (utf16 ''actionItems'')) (JArr []),
           address = or_else (get payload (utf16 ''address'')) JNull,
           officialInfo =
             (if truthy (get payload (utf16 ''isOfficialDocument''))
              then Some \<lparr> isOfficial = True,
                     goNumber = optional_member (get payload (utf16 ''officialDetails'')) (utf16 ''goNumber''),
                     department = optional_member (get payload (utf16 ''officialDetails'')) (utf16 ''department''),
                     date = optional_member (get payload (utf16 ''officialDetails'')) (utf16 ''date''),
                     subject = optional_member (get payload (utf16 ''officialDetails'')) (utf16 ''subject'') \<rparr>
              else None) \<rparr>)"
  using assms by (simp add: translateDocument_try_def member_def Let_def)

lemma translateDocument_try_syntax_error:
  assumes "ai (translate_request base64Data mimeType targetLanguage md) = Inr response"
    and "response_text response = Some t" and "t \<noteq> []"
    and "JSON_parse t = None"
  shows "translateDocument_try ai JSON_parse base64Data mimeType targetLanguage md = Inl SyntaxError"
  using assms by (simp add: translateDocument_try_def)

lemma translateDocument_try_rejected:
  assumes "ai (translate_request base64Data mimeType targetLanguage md) = Inl e"
  shows "translateDocument_try ai JSON_parse base64Data mimeType targetLanguage md = Inl e"
  using assms by (simp add: translateDocument_try_def)

lemma translateDocument_Inr_cases:
  assumes "translateDocument ai JSON_parse base64Data mimeType targetLanguage md = Inr r"
  shows "r = \<lparr> text' = JStr (utf16 ''Could not extract text.''), summary = JStr [],
               actionItems = JArr [], address = JNull, officialInfo = None \<rparr>
     \<or> (\<exists>payload.
          r = \<lparr> text' = or_else (get payload (utf16 ''translation'')) (JStr (utf16 ''Could not extract text.'')),
           summary = or_else (get payload (utf16 ''summary'')) (JStr (utf16 ''No summary available.'')),
           actionItems = or_else (get payload (utf16 ''actionItems'')) (JArr []),
           address = or_else (get payload (utf16 ''address'')) JNull,
           officialInfo =
             (if truthy (get payload (utf16 ''isOfficialDocument''))
              then Some \<lparr> isOfficial = True,
                     goNumber = optional_member (get payload (utf16 ''officialDetails'')) (utf16 ''goNumber''),
                     department = optional_member (get payload (utf16 ''officialDetails'')) (utf16 ''department''),
                     date = optional_member (get payload (utf16 ''officialDetails'')) (utf16 ''date''),
                     subject = optional_member (get payload (utf16 ''officialDetails'')) (utf16 ''subject'') \<rparr>
              else None) \<rparr>)"
    (is "r = ?empty \<or> (\<exists>payload. r = ?parsed payload)")
proof -
  let ?body = "translateDocument_try ai JSON_parse base64Data mimeType targetLanguage md"
  from assms have body: "?body = Inr r"
    by (cases ?body) (simp_all add: translateDocument_def)
  show ?thesis
  proof (cases "ai (translate_request base64Data mimeType targetLanguage md)")
    case (Inl e)
    from translateDocument_try_rejected [of ai, OF this] body show ?thesis by simp
  next
    case (Inr response)
    show ?thesis
    proof (cases "response_text response = None \<or> response_text response = Some []")
      case True
      from translateDocument_try_empty [of ai, OF Inr this] body have "r = ?empty" by simp
      then show ?thesis ..
    next
      case False
      then obtain t where t: "response_text response = Some t" "t \<noteq> []"
        by auto
      show ?thesis
      proof (cases "JSON_parse t")
        case None
        from translateDocument_try_syntax_error [where ai = ai and JSON_parse = JSON_parse, OF Inr t this] body show ?thesis by simp
      next
        case (Some payload)
        from translateDocument_try_parsed [where ai = ai and JSON_parse = JSON_parse, OF Inr t this] body
        have "\<not> nullish payload \<and> r = ?parsed payload"
          by (cases "nullish payload") simp_all
        then show ?thesis by blast
      qed
    qed
  qed
qed

lemma translateDocument_top_level_defaults:
  assumes "translateDocument ai JSON_parse base64Data mimeType targetLanguage md = Inr r"
  shows "(text' r = JStr (utf16 ''Could not extract text.'') \<or> truthy (text' r))
     \<and> (summary r = JStr [] \<or> summary r = JStr (utf16 ''No summary available.'') \<or> truthy (summary r))
     \<and> (actionItems r = JArr [] \<or> truthy (actionItems r))
     \<and> (address r = JNull \<or> truthy (address r))
     \<and> text' r \<noteq> JUndefined \<and> summary r \<noteq> JUndefined \<and> actionItems r \<noteq> JUndefined
     \<and> address r \<noteq> JUndefined
     \<and> (case officialInfo r of None \<Rightarrow> True | Some info \<Rightarrow> isOfficial info)"
proof -
  have d: "or_else a b \<noteq> JUndefined" if "b \<noteq> JUndefined" for a b
    using that by (cases a) (auto simp add: or_else_def)
  have c: "or_else a b = b \<or> truthy (or_else a b)" for a b
    by (simp add: or_else_def)
  from translateDocument_Inr_cases [OF assms] show ?thesis
  proof (elim disjE exE)
    assume r: "r = \<lparr> text' = JStr (utf16 ''Could not extract text.''), summary = JStr [],
               actionItems = JArr [], address = JNull, officialInfo = None \<rparr>"
    show ?thesis by (simp add: r)
  next
    fix payload
    assume r: "r = \<lparr> text' = or_else (get payload (utf16 ''translation'')) (JStr (utf16 ''Could not extract text.'')),
           summary = or_else (get payload (utf16 ''summary'')) (JStr (utf16 ''No summary available.'')),
           actionItems = or_else (get payload (utf16 ''actionItems'')) (JArr []),
           address = or_else (get payload (utf16 ''address'')) JNull,
           officialInfo =
             (if truthy (get payload (utf16 ''isOfficialDocument''))
              then Some \<lparr> isOfficial = True,
                     goNumber = optional_member (get payload (utf16 ''officialDetails'')) (utf16 ''goNumber''),
                     department = optional_member (get payload (utf16 ''officialDetails'')) (utf16 ''department''),
                     date = optional_member (get payload (utf16 ''officialDetails'')) (utf16 ''date''),
                     subject = optional_member (get payload (utf16 ''officialDetails'')) (utf16 ''subject'') \<rparr>
              else None) \<rparr>"
    have 1: "text' r = JStr (utf16 ''Could not extract text.'') \<or> truthy (text' r)"
      using c by (simp add: r)
    have 2: "summary r = JStr [] \<or> summary r = JStr (utf16 ''No summary available.'') \<or> truthy (summary r)"
      using c by (simp add: r)
    have 3: "actionItems r = JArr [] \<or> truthy (actionItems r)"
      using c by (simp add: r)
    have 4: "address r = JNull \<or> truthy (address r)"
      using c by (simp add: r)
    have 5: "text' r \<noteq> JUndefined" "summary r \<noteq> JUndefined" "actionItems r \<noteq> JUndefined"
      "address r \<noteq> JUndefined"
      by (simp_all add: r d)
    have 6: "case officialInfo r of None \<Rightarrow> True | Some info \<Rightarrow> isOfficial info"
      by (simp add: r)
    from 1 2 3 4 5 6 show ?thesis by blast
  qed
qed

lemma translateDocument_official_subfields:
  assumes r: "translateDocument ai JSON_parse base64Data mimeType targetLanguage md = Inr r"
    and ai: "ai (translate_request base64Data mimeType targetLanguage md) = Inr response"
    and t: "response_text response = Some t"
    and p: "JSON_parse t = Some payload"
    and info: "officialInfo r = Some info"
  shows "goNumber info = optional_member (get payload (utf16 ''officialDetails'')) (utf16 ''goNumber'')
     \<and> department info = optional_member (get payload (utf16 ''officialDetails'')) (utf16 ''department'')
     \<and> date info = optional_member (get payload (utf16 ''officialDetails'')) (utf16 ''date'')
     \<and> subject info = optional_member (get payload (utf16 ''officialDetails'')) (utf16 ''subject'')"
proof -
  let ?body = "translateDocument_try ai JSON_parse base64Data mimeType targetLanguage md"
  from r have body: "?body = Inr r"
    by (cases ?body) (simp_all add: translateDocument_def)
  have ne: "t \<noteq> []"
  proof
    assume "t = []"
    with t have "response_text response = None \<or> response_text response = Some []" by simp
    from translateDocument_try_empty [where ai = ai and JSON_parse = JSON_parse, OF ai this] body
    have "officialInfo r = None" by auto
    with info show False by simp
  qed
  from translateDocument_try_parsed [where ai = ai and JSON_parse = JSON_parse, OF ai t ne p] body
  have n: "\<not> nullish payload"
    by (cases "nullish payload") simp_all
  from translateDocument_try_parsed [where ai = ai and JSON_parse = JSON_parse, OF ai t ne p] body n
  have "officialInfo r =
      (if truthy (get payload (utf16 ''isOfficialDocument''))
       then Some \<lparr> isOfficial = True,
              goNumber = optional_member (get payload (utf16 ''officialDetails'')) (utf16 ''goNumber''),
              department = optional_member (get payload (utf16 ''officialDetails'')) (utf16 ''department''),
              date = optional_member (get payload (utf16 ''officialDetails'')) (utf16 ''date''),
              subject = optional_member (get payload (utf16 ''officialDetails'')) (utf16 ''subject'') \<rparr>
       else None)"
    by auto
  with info show ?thesis
    by (cases "truthy (get payload (utf16 ''isOfficialDocument''))") auto
qed

lemma translateDocument_Inr_characterised:
  assumes "translateDocument ai JSON_parse base64Data mimeType targetLanguage md = Inr r"
  shows "\<exists>response. ai (translate_request base64Data mimeType targetLanguage md) = Inr response
     \<and> ((response_text response = None \<or> response_text response = Some [])
          \<and> r = \<lparr> text' = JStr (utf16 ''Could not extract text.''), summary = JStr [],
                   actionItems = JArr [], address = JNull, officialInfo = None \<rparr>
        \<or> (\<exists>t payload. response_text response = Some t \<and> t \<noteq> []
              \<and> JSON_parse t = Some payload \<and> \<not> nullish payload
              \<and> text' r = (if truthy (get payload (utf16 ''translation''))
                            then get payload (utf16 ''translation'')
                            else JStr (utf16 ''Could not extract text.''))
              \<and> summary r = (if truthy (get payload (utf16 ''summary''))
                              then get payload (utf16 ''summary'')
                              else JStr (utf16 ''No summary available.''))
              \<and> actionItems r = (if truthy (get payload (utf16 ''actionItems''))
                                  then get payload (utf16 ''actionItems'')
                                  else JArr [])
              \<and> address r = (if truthy (get payload (utf16 ''address''))
                              then get payload (utf16 ''address'')
                              else JNull)
              \<and> officialInfo r =
                    (if truthy (get payload (utf16 ''isOfficialDocument''))
                     then Some \<lparr> isOfficial = True,
                            goNumber = optional_member (get payload (utf16 ''officialDetails'')) (utf16 ''goNumber''),
                            department = optional_member (get payload (utf16 ''officialDetails'')) (utf16 ''department''),
                            date = optional_member (get payload (utf16 ''officialDetails'')) (utf16 ''date''),
                            subject = optional_member (get payload (utf16 ''officialDetails'')) (utf16 ''subject'') \<rparr>
                     else None)))"
proof -
  let ?body = "translateDocument_try ai JSON_parse base64Data mimeType targetLanguage md"
  from assms have body: "?body = Inr r"
    by (cases ?body) (simp_all add: translateDocument_def)
  show ?thesis
  proof (cases "ai (translate_request base64Data mimeType targetLanguage md)")
    case (Inl e)
    from translateDocument_try_rejected [of ai, OF this] body show ?thesis by simp
  next
    case (Inr response)
    show ?thesis
    proof (cases "response_text response = None \<or> response_text response = Some []")
      case True
      from translateDocument_try_empty [where ai = ai and JSON_parse = JSON_parse, OF Inr this] body
      have "r = \<lparr> text' = JStr (utf16 ''Could not extract text.''), summary = JStr [],
                   actionItems = JArr [], address = JNull, officialInfo = None \<rparr>"
        by simp
      with Inr True show ?thesis by blast
    next
      case False
      then obtain t where t: "response_text response = Some t" "t \<noteq> []"
        by auto
      show ?thesis
      proof (cases "JSON_parse t")
        case None
        from translateDocument_try_syntax_error
          [where ai = ai and JSON_parse = JSON_parse, OF Inr t this] body
        show ?thesis by simp
      next
        case (Some payload)
        note parsed = translateDocument_try_parsed
          [where ai = ai and JSON_parse = JSON_parse, OF Inr t Some]
        from parsed body have n: "\<not> nullish payload"
          by (cases "nullish payload") simp_all
        from parsed body n have r:
          "r = \<lparr> text' = or_else (get payload (utf16 ''translation''))
                           (JStr (utf16 ''Could not extract text.'')),
                 summary = or_else (get payload (utf16 ''summary''))
                             (JStr (utf16 ''No summary available.'')),
                 actionItems = or_else (get payload (utf16 ''actionItems'')) (JArr []),
                 address = or_else (get payload (utf16 ''address'')) JNull,
                 officialInfo =
                   (if truthy (get payload (utf16 ''isOfficialDocument''))
                    then Some \<lparr> isOfficial = True,
                           goNumber = optional_member (get payload (utf16 ''officialDetails'')) (utf16 ''goNumber''),
                           department = optional_member (get payload (utf16 ''officialDetails'')) (utf16 ''department''),
                           date = optional_member (get payload (utf16 ''officialDetails'')) (utf16 ''date''),
                           subject = optional_member (get payload (utf16 ''officialDetails'')) (utf16 ''subject'') \<rparr>
                    else None) \<rparr>"
          by simp
        have 1: "text' r = (if truthy (get payload (utf16 ''translation''))
                            then get payload (utf16 ''translation'')
                            else JStr (utf16 ''Could not extract text.''))"
          by (simp add: r or_else_def)
        have 2: "summary r = (if truthy (get payload (utf16 ''summary''))
                              then get payload (utf16 ''summary'')
                              else JStr (utf16 ''No summary available.''))"
          by (simp add: r or_else_def)
        have 3: "actionItems r = (if truthy (get payload (utf16 ''actionItems''))
                                  then get payload (utf16 ''actionItems'')
                                  else JArr [])"
          by (simp add: r or_else_def)
        have 4: "address r = (if truthy (get payload (utf16 ''address''))
                              then get payload (utf16 ''address'')
                              else JNull)"
          by (simp add: r or_else_def)
        have 5: "officialInfo r =
                    (if truthy (get payload (utf16 ''isOfficialDocument''))
                     then Some \<lparr> isOfficial = True,
                            goNumber = optional_member (get payload (utf16 ''officialDetails'')) (utf16 ''goNumber''),
                            department = optional_member (get payload (utf16 ''officialDetails'')) (utf16 ''department''),
                            date = optional_member (get payload (utf16 ''officialDetails'')) (utf16 ''date''),
                            subject = optional_member (get payload (utf16 ''officialDetails'')) (utf16 ''subject'') \<rparr>
                     else None)"
          by (simp add: r)
        from Inr t Some n 1 2 3 4 5 show ?thesis by blast
      qed
    qed
  qed
qed

text \<open>The examples evaluated.\<close>

lemma utf16_eq_Nil_iff: "utf16 s = [] \<longleftrightarrow> s = []"
  by (simp add: utf16_def)

lemma unofficial_text_nonempty: "unofficial_text \<noteq> []"
  by (simp add: unofficial_text_def utf16_def)

lemma official_text_nonempty: "official_text \<noteq> []"
  by (simp add: official_text_def utf16_def)

lemma get_unofficial:
  "get unofficial_payload (utf16 ''isOfficialDocument'') = JBool False"
  "get unofficial_payload (utf16 ''translation'') = JStr (utf16 ''T'')"
  "get unofficial_payload (utf16 ''summary'') = JStr (utf16 ''S'')"
  "get unofficial_payload (utf16 ''actionItems'') = JArr []"
  "get unofficial_payload (utf16 ''address'') = JUndefined"
  by (simp_all add: unofficial_payload_def utf16_def)

lemma get_official:
  "get official_payload (utf16 ''isOfficialDocument'') = JBool True"
  "get official_payload (utf16 ''translation'') = JStr (utf16 ''T'')"
  "get official_payload (utf16 ''summary'') = JStr (utf16 ''S'')"
  "get official_payload (utf16 ''actionItems'') = JArr []"
  "get official_payload (utf16 ''address'') = JUndefined"
  "get official_payload (utf16 ''officialDetails'') = JUndefined"
  by (simp_all add: official_payload_def utf16_def)

lemma official_example:
  "translateDocument (replies (text_response official_text)) [official_text \<mapsto> official_payload]
      (utf16 ''AAAA'') (utf16 ''image/png'') (utf16 ''Telugu'') speed =
     Inr \<lparr> text' = JStr (utf16 ''T''), summary = JStr (utf16 ''S''), actionItems = JArr [],
           address = JNull,
           officialInfo = Some \<lparr> isOfficial = True, goNumber = JUndefined, department = JUndefined,
                                 date = JUndefined, subject = JUndefined \<rparr> \<rparr>"
proof -
  have n: "\<not> nullish official_payload"
    by (simp add: nullish_def official_payload_def)
  have u: "optional_member JUndefined key = JUndefined" for key
    by (simp add: optional_member_def nullish_def)
  have 1: "replies (text_response official_text)
      (translate_request (utf16 ''AAAA'') (utf16 ''image/png'') (utf16 ''Telugu'') speed)
      = Inr (text_response official_text)"
    by (simp add: replies_def)
  have 2: "response_text (text_response official_text) = Some official_text"
    by (simp add: text_response_def)
  have 3: "[official_text \<mapsto> official_payload] official_text = Some official_payload"
    by simp
  from translateDocument_try_parsed
      [where ai = "replies (text_response official_text)" and JSON_parse = "[official_text \<mapsto> official_payload]", OF 1 2 official_text_nonempty 3]
  have "translateDocument_try (replies (text_response official_text)) [official_text \<mapsto> official_payload]
      (utf16 ''AAAA'') (utf16 ''image/png'') (utf16 ''Telugu'') speed =
     Inr \<lparr> text' = JStr (utf16 ''T''), summary = JStr (utf16 ''S''), actionItems = JArr [],
           address = JNull,
           officialInfo = Some \<lparr> isOfficial = True, goNumber = JUndefined, department = JUndefined,
                                 date = JUndefined, subject = JUndefined \<rparr> \<rparr>"
    by (simp add: n u get_official or_else_def utf16_eq_Nil_iff)
  then show ?thesis by (simp add: translateDocument_def)
qed

text \<open>
  Claim C1, as stated, fails: the payload \<open>null\<close> has no field \<open>isOfficialDocument\<close>, and
  there the first property access throws, so \<open>translateDocument\<close> raises its error and
  returns no result.
\<close>

theorem translateDocument_null_payload_throws:
  "get JNull (utf16 ''isOfficialDocument'') = JUndefined
   \<and> translateDocument (replies (text_response (utf16 ''null''))) [utf16 ''null'' \<mapsto> JNull]
        (utf16 ''AAAA'') (utf16 ''image/png'') (utf16 ''Telugu'') speed
     = Inl (Error (utf16 ''Failed to translate document.''))"
proof -
  have 1: "replies (text_response (utf16 ''null''))
      (translate_request (utf16 ''AAAA'') (utf16 ''image/png'') (utf16 ''Telugu'') speed)
      = Inr (text_response (utf16 ''null''))"
    by (simp add: replies_def)
  have 2: "response_text (text_response (utf16 ''null'')) = Some (utf16 ''null'')"
    by (simp add: text_response_def)
  have 3: "utf16 ''null'' \<noteq> []"
    by (simp add: utf16_eq_Nil_iff)
  have 4: "[utf16 ''null'' \<mapsto> JNull] (utf16 ''null'') = Some JNull"
    by simp
  from translateDocument_try_parsed
    [where ai = "replies (text_response (utf16 ''null''))"
       and JSON_parse = "[utf16 ''null'' \<mapsto> JNull]", OF 1 2 3 4]
  have "translateDocument_try (replies (text_response (utf16 ''null''))) [utf16 ''null'' \<mapsto> JNull]
        (utf16 ''AAAA'') (utf16 ''image/png'') (utf16 ''Telugu'') speed = Inl TypeError"
    by (simp add: nullish_def)
  then show ?thesis by (simp add: translateDocument_def)
qed

text \<open>
  Claim C1, amended. When the parsed payload is not \<open>null\<close> and has the field
  \<open>isOfficialDocument\<close> false or absent, \<open>translateDocument\<close> returns a result whose
  \<open>officialInfo\<close> is null, whatever the payload's \<open>officialDetails\<close> holds.
\<close>

theorem translateDocument_not_official:
  assumes "ai (translate_request base64Data mimeType targetLanguage md) = Inr response"
    and "response_text response = Some t" and "t \<noteq> []"
    and "JSON_parse t = Some payload" and "\<not> nullish payload"
    and "get payload (utf16 ''isOfficialDocument'') = JBool False
         \<or> get payload (utf16 ''isOfficialDocument'') = JUndefined"
  shows "\<exists>r. translateDocument ai JSON_parse base64Data mimeType targetLanguage md = Inr r
           \<and> officialInfo r = None"
  using assms
  by (auto simp add: translateDocument_def translateDocument_try_def member_def Let_def)

theorem translateDocument_not_official_witness:
  "replies (text_response unofficial_text)
       (translate_request (utf16 ''AAAA'') (utf16 ''image/png'') (utf16 ''Telugu'') detailed)
     = Inr (text_response unofficial_text)
   \<and> response_text (text_response unofficial_text) = Some unofficial_text
   \<and> unofficial_text \<noteq> []
   \<and> [unofficial_text \<mapsto> unofficial_payload] unofficial_text = Some unofficial_payload
   \<and> \<not> nullish unofficial_payload
   \<and> get unofficial_payload (utf16 ''isOfficialDocument'') = JBool False
   \<and> get unofficial_payload (utf16 ''officialDetails'') = JObj [(utf16 ''goNumber'', JStr (utf16 ''GO 1''))]
   \<and> (\<exists>r. translateDocument (replies (text_response unofficial_text))
              [unofficial_text \<mapsto> unofficial_payload]
              (utf16 ''AAAA'') (utf16 ''image/png'') (utf16 ''Telugu'') detailed = Inr r
          \<and> officialInfo r = None)"
proof -
  have d: "get unofficial_payload (utf16 ''officialDetails'') = JObj [(utf16 ''goNumber'', JStr (utf16 ''GO 1''))]"
    by (simp add: unofficial_payload_def utf16_def)
  have n: "\<not> nullish unofficial_payload"
    by (simp add: nullish_def unofficial_payload_def)
  show ?thesis
    using translateDocument_not_official
      [of "replies (text_response unofficial_text)" "utf16 ''AAAA''" "utf16 ''image/png''"
          "utf16 ''Telugu''" detailed "text_response unofficial_text" unofficial_text
          "[unofficial_text \<mapsto> unofficial_payload]" unofficial_payload]
    by (simp add: replies_def text_response_def unofficial_text_nonempty n d get_unofficial)
qed

text \<open>
  Claim C2. When the text of the remote response is absent or empty, \<open>translateDocument\<close>
  returns the canonical empty result and raises no error: the placeholder text, the empty
  summary, no action items, a null address and a null official info.
\<close>

theorem translateDocument_empty_text:
  assumes "ai (translate_request base64Data mimeType targetLanguage md) = Inr response"
    and "response_text response = None \<or> response_text response = Some []"
  shows "translateDocument ai JSON_parse base64Data mimeType targetLanguage md =
     Inr \<lparr> text' = JStr (utf16 ''Could not extract text.''), summary = JStr [],
           actionItems = JArr [], address = JNull, officialInfo = None \<rparr>"
  using assms by (auto simp add: translateDocument_def translateDocument_try_def)

theorem translateDocument_empty_text_witness:
  "replies \<lparr> response_text = None, candidates = None \<rparr>
       (translate_request (utf16 ''AAAA'') (utf16 ''image/png'') (utf16 ''Telugu'') speed)
     = Inr \<lparr> response_text = None, candidates = None \<rparr>
   \<and> translateDocument (replies \<lparr> response_text = None, candidates = None \<rparr>)
        [official_text \<mapsto> official_payload]
        (utf16 ''AAAA'') (utf16 ''image/png'') (utf16 ''Telugu'') speed =
      Inr \<lparr> text' = JStr (utf16 ''Could not extract text.''), summary = JStr [],
            actionItems = JArr [], address = JNull, officialInfo = None \<rparr>
   \<and> translateDocument (replies (text_response []))
        [official_text \<mapsto> official_payload]
        (utf16 ''AAAA'') (utf16 ''image/png'') (utf16 ''Telugu'') speed =
      Inr \<lparr> text' = JStr (utf16 ''Could not extract text.''), summary = JStr [],
            actionItems = JArr [], address = JNull, officialInfo = None \<rparr>"
  using translateDocument_empty_text
      [of "replies \<lparr> response_text = None, candidates = None \<rparr>" "utf16 ''AAAA''"
          "utf16 ''image/png''" "utf16 ''Telugu''" speed
          "\<lparr> response_text = None, candidates = None \<rparr>" "[official_text \<mapsto> official_payload]"]
    translateDocument_empty_text
      [of "replies (text_response [])" "utf16 ''AAAA''"
          "utf16 ''image/png''" "utf16 ''Telugu''" speed
          "text_response []" "[official_text \<mapsto> official_payload]"]
  by (simp add: replies_def text_response_def)

text \<open>
  Claim C3, as stated, fails: for an official document whose payload carries no
  \<open>officialDetails\<close>, the four sub-fields of the returned official info are \<open>undefined\<close>.
\<close>

theorem translateDocument_official_subfields_undefined:
  "translateDocument (replies (text_response official_text)) [official_text \<mapsto> official_payload]
      (utf16 ''AAAA'') (utf16 ''image/png'') (utf16 ''Telugu'') speed =
     Inr \<lparr> text' = JStr (utf16 ''T''), summary = JStr (utf16 ''S''), actionItems = JArr [],
           address = JNull,
           officialInfo = Some \<lparr> isOfficial = True, goNumber = JUndefined, department = JUndefined,
                                 date = JUndefined, subject = JUndefined \<rparr> \<rparr>"
  by (rule official_example)

text \<open>
  Claim C3, amended. Every result that \<open>translateDocument\<close> returns is determined by the
  response: after an absent or empty response text it is the canonical empty record;
  otherwise the text parses to a payload that is not \<open>null\<close>, and each of the top-level
  fields \<open>text\<close>, \<open>summary\<close>, \<open>actionItems\<close> and \<open>address\<close> is the payload's value when that
  is truthy and otherwise its placeholder (the fixed text, the fixed summary, the empty
  array, null), so none of them is \<open>undefined\<close>. The official info is null unless the
  payload's flag is truthy; then it has \<open>isOfficial\<close> true, and its sub-fields are what
  \<open>officialDetails?.goNumber\<close> and so on give on the payload, with no placeholder:
  \<open>undefined\<close> where the details or the sub-field are absent.
\<close>

theorem translateDocument_field_defaults:
  assumes "translateDocument ai JSON_parse base64Data mimeType targetLanguage md = Inr r"
  shows "(\<exists>response. ai (translate_request base64Data mimeType targetLanguage md) = Inr response
     \<and> ((response_text response = None \<or> response_text response = Some [])
          \<and> r = \<lparr> text' = JStr (utf16 ''Could not extract text.''), summary = JStr [],
                   actionItems = JArr [], address = JNull, officialInfo = None \<rparr>
        \<or> (\<exists>t payload. response_text response = Some t \<and> t \<noteq> []
              \<and> JSON_parse t = Some payload \<and> \<not> nullish payload
              \<and> text' r = (if truthy (get payload (utf16 ''translation''))
                            then get payload (utf16 ''translation'')
                            else JStr (utf16 ''Could not extract text.''))
              \<and> summary r = (if truthy (get payload (utf16 ''summary''))
                              then get payload (utf16 ''summary'')
                              else JStr (utf16 ''No summary available.''))
              \<and> actionItems r = (if truthy (get payload (utf16 ''actionItems''))
                                  then get payload (utf16 ''actionItems'')
                                  else JArr [])
              \<and> address r = (if truthy (get payload (utf16 ''address''))
                              then get payload (utf16 ''address'')
                              else JNull)
              \<and> officialInfo r =
                    (if truthy (get payload (utf16 ''isOfficialDocument''))
                     then Some \<lparr> isOfficial = True,
                            goNumber = optional_member (get payload (utf16 ''officialDetails'')) (utf16 ''goNumber''),
                            department = optional_member (get payload (utf16 ''officialDetails'')) (utf16 ''department''),
                            date = optional_member (get payload (utf16 ''officialDetails'')) (utf16 ''date''),
                            subject = optional_member (get payload (utf16 ''officialDetails'')) (utf16 ''subject'') \<rparr>
                     else None))))
     \<and> (text' r = JStr (utf16 ''Could not extract text.'') \<or> truthy (text' r))
     \<and> (summary r = JStr [] \<or> summary r = JStr (utf16 ''No summary available.'') \<or> truthy (summary r))
     \<and> (actionItems r = JArr [] \<or> truthy (actionItems r))
     \<and> (address r = JNull \<or> truthy (address r))
     \<and> text' r \<noteq> JUndefined \<and> summary r \<noteq> JUndefined \<and> actionItems r \<noteq> JUndefined
     \<and> address r \<noteq> JUndefined
     \<and> (\<forall>info. officialInfo r = Some info \<longrightarrow> isOfficial info)
     \<and> (\<forall>response t payload info.
           ai (translate_request base64Data mimeType targetLanguage md) = Inr response
           \<and> response_text response = Some t \<and> JSON_parse t = Some payload
           \<and> officialInfo r = Some info \<longrightarrow>
             goNumber info = optional_member (get payload (utf16 ''officialDetails'')) (utf16 ''goNumber'')
           \<and> department info = optional_member (get payload (utf16 ''officialDetails'')) (utf16 ''department'')
           \<and> date info = optional_member (get payload (utf16 ''officialDetails'')) (utf16 ''date'')
           \<and> subject info = optional_member (get payload (utf16 ''officialDetails'')) (utf16 ''subject''))"
proof -
  from translateDocument_top_level_defaults [OF assms]
  have top: "(text' r = JStr (utf16 ''Could not extract text.'') \<or> truthy (text' r))
     \<and> (summary r = JStr [] \<or> summary r = JStr (utf16 ''No summary available.'') \<or> truthy (summary r))
     \<and> (actionItems r = JArr [] \<or> truthy (actionItems r))
     \<and> (address r = JNull \<or> truthy (address r))
     \<and> text' r \<noteq> JUndefined \<and> summary r \<noteq> JUndefined \<and> actionItems r \<noteq> JUndefined
     \<and> address r \<noteq> JUndefined"
    and off: "case officialInfo r of None \<Rightarrow> True | Some info \<Rightarrow> isOfficial info"
    by blast+
  from off have o: "\<forall>info. officialInfo r = Some info \<longrightarrow> isOfficial info"
    by (cases "officialInfo r") simp_all
  have s: "\<forall>response t payload info.
           ai (translate_request base64Data mimeType targetLanguage md) = Inr response
           \<and> response_text response = Some t \<and> JSON_parse t = Some payload
           \<and> officialInfo r = Some info \<longrightarrow>
             goNumber info = optional_member (get payload (utf16 ''officialDetails'')) (utf16 ''goNumber'')
           \<and> department info = optional_member (get payload (utf16 ''officialDetails'')) (utf16 ''department'')
           \<and> date info = optional_member (get payload (utf16 ''officialDetails'')) (utf16 ''date'')
           \<and> subject info = optional_member (get payload (utf16 ''officialDetails'')) (utf16 ''subject'')"
  proof (intro allI impI)
    fix response t payload info
    assume h: "ai (translate_request base64Data mimeType targetLanguage md) = Inr response
           \<and> response_text response = Some t \<and> JSON_parse t = Some payload
           \<and> officialInfo r = Some info"
    from h have 1: "ai (translate_request base64Data mimeType targetLanguage md) = Inr response"
      and 2: "response_text response = Some t" and 3: "JSON_parse t = Some payload"
      and 4: "officialInfo r = Some info"
      by blast+
    from translateDocument_official_subfields
      [where ai = ai and JSON_parse = JSON_parse, OF assms 1 2 3 4]
    show "goNumber info = optional_member (get payload (utf16 ''officialDetails'')) (utf16 ''goNumber'')
           \<and> department info = optional_member (get payload (utf16 ''officialDetails'')) (utf16 ''department'')
           \<and> date info = optional_member (get payload (utf16 ''officialDetails'')) (utf16 ''date'')
           \<and> subject info = optional_member (get payload (utf16 ''officialDetails'')) (utf16 ''subject'')" .
  qed
  note c = translateDocument_Inr_characterised [OF assms]
  from top o s have rest: "(text' r = JStr (utf16 ''Could not extract text.'') \<or> truthy (text' r))
     \<and> (summary r = JStr [] \<or> summary r = JStr (utf16 ''No summary available.'') \<or> truthy (summary r))
     \<and> (actionItems r = JArr [] \<or> truthy (actionItems r))
     \<and> (address r = JNull \<or> truthy (address r))
     \<and> text' r \<noteq> JUndefined \<and> summary r \<noteq> JUndefined \<and> actionItems r \<noteq> JUndefined
     \<and> address r \<noteq> JUndefined
     \<and> (\<forall>info. officialInfo r = Some info \<longrightarrow> isOfficial info)
     \<and> (\<forall>response t payload info.
           ai (translate_request base64Data mimeType targetLanguage md) = Inr response
           \<and> response_text response = Some t \<and> JSON_parse t = Some payload
           \<and> officialInfo r = Some info \<longrightarrow>
             goNumber info = optional_member (get payload (utf16 ''officialDetails'')) (utf16 ''goNumber'')
           \<and> department info = optional_member (get payload (utf16 ''officialDetails'')) (utf16 ''department'')
           \<and> date info = optional_member (get payload (utf16 ''officialDetails'')) (utf16 ''date'')
           \<and> subject info = optional_member (get payload (utf16 ''officialDetails'')) (utf16 ''subject''))"
    by blast
  from c rest show ?thesis by (rule conjI)
qed

theorem translateDocument_field_defaults_witness:
  "translateDocument (replies (text_response official_text)) [official_text \<mapsto> official_payload]
      (utf16 ''AAAA'') (utf16 ''image/png'') (utf16 ''Telugu'') speed =
     Inr \<lparr> text' = JStr (utf16 ''T''), summary = JStr (utf16 ''S''), actionItems = JArr [],
           address = JNull,
           officialInfo = Some \<lparr> isOfficial = True, goNumber = JUndefined, department = JUndefined,
                                 date = JUndefined, subject = JUndefined \<rparr> \<rparr>
   \<and> get official_payload (utf16 ''translation'') = JStr (utf16 ''T'')
   \<and> get official_payload (utf16 ''summary'') = JStr (utf16 ''S'')
   \<and> get official_payload (utf16 ''actionItems'') = JArr []
   \<and> get official_payload (utf16 ''address'') = JUndefined
   \<and> truthy (JStr (utf16 ''T'')) \<and> truthy (JStr (utf16 ''S'')) \<and> truthy (JArr [])
   \<and> \<not> truthy JUndefined
   \<and> optional_member (get official_payload (utf16 ''officialDetails'')) (utf16 ''goNumber'') = JUndefined"
proof -
  have g: "optional_member (get official_payload (utf16 ''officialDetails'')) (utf16 ''goNumber'')
      = JUndefined"
    by (simp add: get_official optional_member_def nullish_def)
  note w = translateDocument_field_defaults [OF official_example, THEN conjunct2]
  from w have d: "JStr (utf16 ''T'') \<noteq> JUndefined"
    by simp
  from d g show ?thesis
    by (simp add: official_example get_official utf16_eq_Nil_iff)
qed

section \<open>Properties of \<open>resolveLocation\<close>\<close>

text \<open>
  The matcher finds a capture exactly when a word of the pattern's language occurs in the
  text.
\<close>

lemma literal_Some_iff:
  "literal marker s = Some rest \<longleftrightarrow>
     (\<exists>m. s = m @ rest \<and> map canonicalize m = map canonicalize marker)"
proof (induction marker s rule: literal.induct)
  case (1 s)
  then show ?case by auto
next
  case (2 p ps)
  then show ?case by auto
next
  case (3 p ps c cs)
  show ?case
  proof (cases "canonicalize c = canonicalize p")
    case True
    with 3 show ?thesis
      by (auto simp add: Cons_eq_append_conv map_eq_Cons_conv)
  next
    case False
    then show ?thesis
      by (auto simp add: Cons_eq_append_conv map_eq_Cons_conv)
  qed
qed

lemma optional_minus_cases:
  "optional_minus s = ([], s) \<and> (s = [] \<or> hd s \<noteq> 45) \<or> (\<exists>rest. s = 45 # rest \<and> optional_minus s = ([45], rest))"
  by (cases s) (auto simp add: optional_minus_def)

lemma optional_fraction_prefix:
  "\<exists>post. s = optional_fraction s @ post
     \<and> (optional_fraction s = []
         \<or> (\<exists>fs. optional_fraction s = 46 # fs \<and> fs \<noteq> [] \<and> list_all is_digit fs))"
proof (cases s)
  case Nil
  then show ?thesis by (simp add: optional_fraction_def)
next
  case (Cons c rest)
  show ?thesis
  proof (cases "c = 46 \<and> takeWhile is_digit rest \<noteq> []")
    case True
    with Cons have frac: "optional_fraction s = 46 # takeWhile is_digit rest"
      by (simp add: optional_fraction_def)
    have "rest = takeWhile is_digit rest @ dropWhile is_digit rest" by simp
    with True Cons frac have "s = optional_fraction s @ dropWhile is_digit rest"
      by simp
    moreover have "list_all is_digit (takeWhile is_digit rest)"
      by (auto simp add: list_all_iff dest: set_takeWhileD)
    ultimately show ?thesis
      using True frac by blast
  next
    case False
    with Cons have "optional_fraction s = []"
      by (auto simp add: optional_fraction_def)
    then show ?thesis by simp
  qed
qed

lemma number_group_sound:
  assumes "number_group s = Some capture"
  shows "\<exists>post. s = capture @ post \<and> number_language capture"
proof -
  obtain sign s1 where om: "optional_minus s = (sign, s1)"
    by (cases "optional_minus s")
  with optional_minus_cases [of s] have s: "s = sign @ s1" and sign: "sign = [] \<or> sign = [45]"
    by auto
  let ?ds = "takeWhile is_digit s1"
  let ?s2 = "dropWhile is_digit s1"
  from assms om have ds: "?ds \<noteq> []" and cap: "capture = sign @ ?ds @ optional_fraction ?s2"
    by (auto simp add: number_group_def Let_def split: if_splits)
  from optional_fraction_prefix [of ?s2] obtain post where
    post: "?s2 = optional_fraction ?s2 @ post"
    and frac: "optional_fraction ?s2 = []
       \<or> (\<exists>fs. optional_fraction ?s2 = 46 # fs \<and> fs \<noteq> [] \<and> list_all is_digit fs)"
    by blast
  have "s1 = ?ds @ ?s2" by simp
  with post have "s1 = ?ds @ optional_fraction ?s2 @ post" by simp
  with s cap have "s = capture @ post" by simp
  moreover have "list_all is_digit ?ds"
    by (auto simp add: list_all_iff dest: set_takeWhileD)
  with sign ds frac cap have "number_language capture"
    unfolding number_language_def by blast
  ultimately show ?thesis by blast
qed

lemma number_group_complete:
  assumes "number_language num"
  shows "number_group (num @ post) \<noteq> None"
proof -
  from assms obtain sign ds frac where num: "num = sign @ ds @ frac"
    and sign: "sign = [] \<or> sign = [45]" and ds: "ds \<noteq> []" "list_all is_digit ds"
    unfolding number_language_def by blast
  from ds obtain d ds' where dd: "ds = d # ds'" "is_digit d"
    by (cases ds) auto
  then have d45: "d \<noteq> 45" by (auto simp add: is_digit_def)
  have om: "optional_minus (num @ post) = (sign, ds @ frac @ post)"
    using sign num dd d45 by (auto simp add: optional_minus_def)
  have "takeWhile is_digit (ds @ frac @ post) \<noteq> []"
    using dd by simp
  with om show ?thesis
    by (simp add: number_group_def Let_def)
qed

lemma number_language_head:
  assumes "number_language num"
  shows "num \<noteq> [] \<and> \<not> is_space (hd num)"
proof -
  from assms obtain sign ds frac where num: "num = sign @ ds @ frac"
    and sign: "sign = [] \<or> sign = [45]" and ds: "ds \<noteq> []" "list_all is_digit ds"
    unfolding number_language_def by blast
  from ds obtain d ds' where dd: "ds = d # ds'" "is_digit d"
    by (cases ds) auto
  have "\<not> is_space 45" by (simp add: is_space_def)
  moreover from dd have "\<not> is_space d" by (auto simp add: is_space_def is_digit_def)
  ultimately show ?thesis using num sign dd by auto
qed

lemma match_here_iff:
  "match_here marker s \<noteq> None \<longleftrightarrow> (\<exists>w post. s = w @ post \<and> pattern_language marker w)"
proof
  assume "match_here marker s \<noteq> None"
  then obtain rest capture where lit: "literal marker s = Some rest"
    and ng: "number_group (dropWhile is_space rest) = Some capture"
    by (auto simp add: match_here_def split: option.splits)
  from lit obtain m where m: "s = m @ rest" "map canonicalize m = map canonicalize marker"
    by (auto simp add: literal_Some_iff)
  from number_group_sound [OF ng] obtain post where
    post: "dropWhile is_space rest = capture @ post" and nl: "number_language capture"
    by blast
  let ?ws = "takeWhile is_space rest"
  have "rest = ?ws @ dropWhile is_space rest" by simp
  with post m have "s = (m @ ?ws @ capture) @ post" by simp
  moreover have "list_all is_space ?ws"
    by (auto simp add: list_all_iff dest: set_takeWhileD)
  with m nl have "pattern_language marker (m @ ?ws @ capture)"
    unfolding pattern_language_def by blast
  ultimately show "\<exists>w post. s = w @ post \<and> pattern_language marker w" by blast
next
  assume "\<exists>w post. s = w @ post \<and> pattern_language marker w"
  then obtain m ws num post where s: "s = (m @ ws @ num) @ post"
    and m: "map canonicalize m = map canonicalize marker"
    and ws: "list_all is_space ws" and nl: "number_language num"
    unfolding pattern_language_def by blast
  from s m have lit: "literal marker s = Some (ws @ num @ post)"
    by (auto simp add: literal_Some_iff)
  from number_language_head [OF nl] have "dropWhile is_space (num @ post) = num @ post"
    by (cases num) auto
  with ws have "dropWhile is_space (ws @ num @ post) = num @ post"
    by (simp add: list_all_iff)
  with lit number_group_complete [OF nl, of post] show "match_here marker s \<noteq> None"
    by (simp add: match_here_def)
qed

lemma match_group_iff_position:
  "match_group marker input \<noteq> None \<longleftrightarrow>
     (\<exists>pre suf. input = pre @ suf \<and> match_here marker suf \<noteq> None)"
proof (induction input)
  case Nil
  then show ?case by simp
next
  case (Cons c cs)
  show ?case
  proof (cases "match_here marker (c # cs)")
    case (Some capture)
    then have "c # cs = [] @ (c # cs) \<and> match_here marker (c # cs) \<noteq> None" by simp
    then have "\<exists>pre suf. c # cs = pre @ suf \<and> match_here marker suf \<noteq> None" by blast
    with Some show ?thesis by simp
  next
    case None
    have "(\<exists>pre suf. c # cs = pre @ suf \<and> match_here marker suf \<noteq> None)
        \<longleftrightarrow> (\<exists>pre suf. cs = pre @ suf \<and> match_here marker suf \<noteq> None)"
    proof
      assume "\<exists>pre suf. c # cs = pre @ suf \<and> match_here marker suf \<noteq> None"
      then obtain pre suf where ps: "c # cs = pre @ suf" "match_here marker suf \<noteq> None"
        by blast
      with None obtain pre' where "pre = c # pre'"
        by (cases pre) auto
      with ps show "\<exists>pre suf. cs = pre @ suf \<and> match_here marker suf \<noteq> None"
        by auto
    next
      assume "\<exists>pre suf. cs = pre @ suf \<and> match_here marker suf \<noteq> None"
      then obtain pre suf where "cs = pre @ suf" "match_here marker suf \<noteq> None"
        by blast
      then have "c # cs = (c # pre) @ suf \<and> match_here marker suf \<noteq> None" by simp
      then show "\<exists>pre suf. c # cs = pre @ suf \<and> match_here marker suf \<noteq> None" by blast
    qed
    with None Cons.IH show ?thesis by simp
  qed
qed

lemma match_group_iff: "match_group marker input \<noteq> None \<longleftrightarrow> pattern_occurs marker input"
proof -
  have "pattern_occurs marker input \<longleftrightarrow>
      (\<exists>pre suf. input = pre @ suf \<and> (\<exists>w post. suf = w @ post \<and> pattern_language marker w))"
    unfolding pattern_occurs_def by blast
  then show ?thesis
    by (simp only: match_group_iff_position match_here_iff)
qed

lemma resolveLocation_rejected:
  "ai (LocationRequest addr) = Inl e \<Longrightarrow>
   resolveLocation ai addr = Inr \<lparr> latitude = None, longitude = None, mapUri = None \<rparr>"
  by (simp add: resolveLocation_def resolveLocation_try_def)

lemma resolveLocation_resolved:
  assumes "ai (LocationRequest addr) = Inr response"
  shows "resolveLocation ai addr =
     Inr \<lparr> latitude =
             (if match_group (utf16 ''LAT:'') (case response_text response of None \<Rightarrow> [] | Some t \<Rightarrow> t) \<noteq> None
                 \<and> match_group (utf16 ''LNG:'') (case response_text response of None \<Rightarrow> [] | Some t \<Rightarrow> t) \<noteq> None
              then Some (parseFloat (the (match_group (utf16 ''LAT:'')
                     (case response_text response of None \<Rightarrow> [] | Some t \<Rightarrow> t))))
              else None),
           longitude =
             (if match_group (utf16 ''LAT:'') (case response_text response of None \<Rightarrow> [] | Some t \<Rightarrow> t) \<noteq> None
                 \<and> match_group (utf16 ''LNG:'') (case response_text response of None \<Rightarrow> [] | Some t \<Rightarrow> t) \<noteq> None
              then Some (parseFloat (the (match_group (utf16 ''LNG:'')
                     (case response_text response of None \<Rightarrow> [] | Some t \<Rightarrow> t))))
              else None),
           mapUri = (case grounding_chunks response of None \<Rightarrow> None | Some cs \<Rightarrow> scan_chunks cs) \<rparr>"
  using assms by (simp add: resolveLocation_def resolveLocation_try_def Let_def)

lemma scan_chunks_find: "scan_chunks cs = Option.bind (List.find exposes_uri cs) web_uri"
  by (induction cs) (simp_all add: exposes_uri_def)

lemma scan_chunks_Some_iff:
  "scan_chunks cs = Some u \<longleftrightarrow>
     (\<exists>i<length cs. web_uri (cs ! i) = Some u \<and> u \<noteq> [] \<and> (\<forall>j<i. \<not> exposes_uri (cs ! j)))"
proof
  assume "scan_chunks cs = Some u"
  then obtain c where c: "List.find exposes_uri cs = Some c" "web_uri c = Some u"
    by (auto simp add: scan_chunks_find bind_eq_Some_conv)
  then obtain i where i: "i < length cs" "exposes_uri (cs ! i)" "c = cs ! i"
    "\<forall>j<i. \<not> exposes_uri (cs ! j)"
    by (auto simp add: find_Some_iff)
  with c have "web_uri (cs ! i) = Some u \<and> u \<noteq> []"
    by (auto simp add: exposes_uri_def)
  with i show "\<exists>i<length cs. web_uri (cs ! i) = Some u \<and> u \<noteq> [] \<and> (\<forall>j<i. \<not> exposes_uri (cs ! j))"
    by blast
next
  assume "\<exists>i<length cs. web_uri (cs ! i) = Some u \<and> u \<noteq> [] \<and> (\<forall>j<i. \<not> exposes_uri (cs ! j))"
  then obtain i where i: "i < length cs" "web_uri (cs ! i) = Some u" "u \<noteq> []"
    "\<forall>j<i. \<not> exposes_uri (cs ! j)"
    by blast
  then have "exposes_uri (cs ! i)" by (simp add: exposes_uri_def)
  with i have "List.find exposes_uri cs = Some (cs ! i)"
    by (auto simp add: find_Some_iff)
  with i show "scan_chunks cs = Some u"
    by (simp add: scan_chunks_find)
qed

lemma scan_chunks_None_iff:
  "scan_chunks cs = None \<longleftrightarrow> (\<forall>c \<in> set cs. \<not> exposes_uri c)"
  by (induction cs) (auto simp add: exposes_uri_def)

text \<open>
  Claim C9. The map URI of the result is the web URI of the first grounding reference, in
  the order of the list, that exposes one; references before it expose none. It is unset
  exactly when the list is absent or no reference in it exposes a web URI.
\<close>

theorem resolveLocation_mapUri_first:
  assumes "ai (LocationRequest addr) = Inr response"
  shows "\<exists>r. resolveLocation ai addr = Inr r
     \<and> (\<forall>u. mapUri r = Some u \<longleftrightarrow>
           (\<exists>cs i. grounding_chunks response = Some cs \<and> i < length cs
              \<and> web_uri (cs ! i) = Some u \<and> u \<noteq> [] \<and> (\<forall>j<i. \<not> exposes_uri (cs ! j))))
     \<and> (mapUri r = None \<longleftrightarrow>
           (grounding_chunks response = None
            \<or> (\<exists>cs. grounding_chunks response = Some cs \<and> (\<forall>c \<in> set cs. \<not> exposes_uri c))))"
proof (cases "grounding_chunks response")
  case None
  with resolveLocation_resolved [of ai, OF assms] show ?thesis by simp
next
  case (Some cs)
  with resolveLocation_resolved [of ai, OF assms] show ?thesis
    by (simp add: scan_chunks_Some_iff scan_chunks_None_iff)
qed

theorem resolveLocation_mapUri_first_witness:
  "replies grounded_response (LocationRequest (utf16 ''MG Road, Bengaluru'')) = Inr grounded_response
   \<and> grounding_chunks grounded_response = Some example_chunks
   \<and> (\<exists>r. resolveLocation (replies grounded_response) (utf16 ''MG Road, Bengaluru'') = Inr r
          \<and> mapUri r = Some (utf16 ''https://maps.example/a''))"
proof -
  have a: "replies grounded_response (LocationRequest (utf16 ''MG Road, Bengaluru'')) = Inr grounded_response"
    by (simp add: replies_def)
  have g: "grounding_chunks grounded_response = Some example_chunks"
    by (simp add: grounding_chunks_def grounded_response_def first_def)
  from resolveLocation_mapUri_first [of "replies grounded_response", OF a]
  obtain r where r: "resolveLocation (replies grounded_response) (utf16 ''MG Road, Bengaluru'') = Inr r"
    and u: "\<And>u. mapUri r = Some u \<longleftrightarrow>
           (\<exists>cs i. grounding_chunks grounded_response = Some cs \<and> i < length cs
              \<and> web_uri (cs ! i) = Some u \<and> u \<noteq> [] \<and> (\<forall>j<i. \<not> exposes_uri (cs ! j)))"
    by blast
  have "(3::nat) < length example_chunks
      \<and> web_uri (example_chunks ! 3) = Some (utf16 ''https://maps.example/a'')
      \<and> utf16 ''https://maps.example/a'' \<noteq> []
      \<and> (\<forall>j<3. \<not> exposes_uri (example_chunks ! j))"
    by (simp add: example_chunks_def web_uri_def exposes_uri_def utf16_eq_Nil_iff
          less_Suc_eq numeral_3_eq_3)
  with g have "mapUri r = Some (utf16 ''https://maps.example/a'')"
    unfolding u by blast
  with a g r show ?thesis by blast
qed

text \<open>
  Claim C5. The result has a latitude exactly when both patterns, the one after \<open>LAT:\<close>
  and the one after \<open>LNG:\<close>, match the response text, and the same holds for the
  longitude; for the text \<open>LAT: 12.34\<close>, where only the first matches, both are undefined.
\<close>

theorem resolveLocation_coordinates_paired:
  assumes "ai (LocationRequest addr) = Inr response"
  shows "\<exists>r. resolveLocation ai addr = Inr r
     \<and> (latitude r \<noteq> None \<longleftrightarrow>
           pattern_occurs (utf16 ''LAT:'') (case response_text response of None \<Rightarrow> [] | Some t \<Rightarrow> t)
           \<and> pattern_occurs (utf16 ''LNG:'') (case response_text response of None \<Rightarrow> [] | Some t \<Rightarrow> t))
     \<and> (longitude r \<noteq> None \<longleftrightarrow>
           pattern_occurs (utf16 ''LAT:'') (case response_text response of None \<Rightarrow> [] | Some t \<Rightarrow> t)
           \<and> pattern_occurs (utf16 ''LNG:'') (case response_text response of None \<Rightarrow> [] | Some t \<Rightarrow> t))
     \<and> (response_text response = Some (utf16 ''LAT: 12.34'') \<longrightarrow>
           latitude r = None \<and> longitude r = None)"
proof -
  have lng: "match_group (utf16 ''LNG:'') (utf16 ''LAT: 12.34'') = None"
    by (simp add: utf16_def match_here_def canonicalize_def)
  show ?thesis
    using resolveLocation_resolved [of ai, OF assms] lng
    by (auto simp add: match_group_iff [symmetric])
qed

theorem resolveLocation_coordinates_paired_witness:
  "replies (text_response (utf16 ''LAT: 12.34'')) (LocationRequest (utf16 ''MG Road, Bengaluru''))
     = Inr (text_response (utf16 ''LAT: 12.34''))
   \<and> response_text (text_response (utf16 ''LAT: 12.34'')) = Some (utf16 ''LAT: 12.34'')
   \<and> (\<exists>r. resolveLocation (replies (text_response (utf16 ''LAT: 12.34''))) (utf16 ''MG Road, Bengaluru'') = Inr r
          \<and> latitude r = None \<and> longitude r = None)"
  using resolveLocation_coordinates_paired
    [of "replies (text_response (utf16 ''LAT: 12.34''))" "utf16 ''MG Road, Bengaluru''"
        "text_response (utf16 ''LAT: 12.34'')"]
  by (auto simp add: replies_def text_response_def)

text \<open>
  Claim C6. For the response text \<open>LAT: 12.9716, LNG: 77.5946\<close> the result has latitude
  12.9716 and longitude 77.5946.
\<close>

theorem resolveLocation_example:
  assumes "ai (LocationRequest addr) = Inr response"
    and "response_text response = Some (utf16 ''LAT: 12.9716, LNG: 77.5946'')"
  shows "\<exists>r. resolveLocation ai addr = Inr r
     \<and> latitude r = Some (Finite 12.9716) \<and> longitude r = Some (Finite 77.5946)"
proof -
  have lat: "match_group (utf16 ''LAT:'') (utf16 ''LAT: 12.9716, LNG: 77.5946'') = Some (utf16 ''12.9716'')"
    by (simp add: utf16_def match_here_def canonicalize_def number_group_def optional_minus_def
          optional_fraction_def is_space_def is_digit_def)
  have lng: "match_group (utf16 ''LNG:'') (utf16 ''LAT: 12.9716, LNG: 77.5946'') = Some (utf16 ''77.5946'')"
    by (simp add: utf16_def match_here_def canonicalize_def number_group_def optional_minus_def
          optional_fraction_def is_space_def is_digit_def)
  have pl: "parseFloat (utf16 ''12.9716'') = Finite 12.9716"
    by (simp add: utf16_def parseFloat_def is_space_def is_digit_def digits_value_def)
  have pg: "parseFloat (utf16 ''77.5946'') = Finite 77.5946"
    by (simp add: utf16_def parseFloat_def is_space_def is_digit_def digits_value_def)
  show ?thesis
    using resolveLocation_resolved [of ai, OF assms(1)] assms(2) lat lng pl pg
    by simp
qed

theorem resolveLocation_example_witness:
  "replies grounded_response (LocationRequest (utf16 ''MG Road, Bengaluru'')) = Inr grounded_response
   \<and> response_text grounded_response = Some (utf16 ''LAT: 12.9716, LNG: 77.5946'')
   \<and> (\<exists>r. resolveLocation (replies grounded_response) (utf16 ''MG Road, Bengaluru'') = Inr r
          \<and> latitude r = Some (Finite (129716 / 10000)) \<and> longitude r = Some (Finite (775946 / 10000)))"
  using resolveLocation_example
    [of "replies grounded_response" "utf16 ''MG Road, Bengaluru''" grounded_response]
  by (auto simp add: replies_def grounded_response_def)

section \<open>Failures of the remote call\<close>

lemma generateSpeech_rejected:
  "ai (SpeechRequest speech) = Inl e \<Longrightarrow>
   generateSpeech ai speech = Inl (Error (utf16 ''Failed to generate speech.''))"
  by (simp add: generateSpeech_def generateSpeech_try_def)

lemma generateSpeech_resolved:
  "ai (SpeechRequest speech) = Inr response \<Longrightarrow>
   generateSpeech ai speech =
     (if audio_data response = None \<or> audio_data response = Some []
      then Inl (Error (utf16 ''Failed to generate speech.''))
      else Inr (the (audio_data response)))"
  by (simp add: generateSpeech_def generateSpeech_try_def Let_def)

text \<open>
  Claim C7. When the remote call fails, \<open>translateDocument\<close> raises the error
  \<open>Failed to translate document.\<close>, and \<open>resolveLocation\<close> returns the empty result with
  no latitude, longitude or map URI. Whatever fails inside \<open>resolveLocation\<close> gives that
  empty result, and \<open>resolveLocation\<close> never raises.
\<close>

theorem remote_failure_handling:
  "(ai (translate_request base64Data mimeType targetLanguage md) = Inl e \<longrightarrow>
      translateDocument ai JSON_parse base64Data mimeType targetLanguage md =
        Inl (Error (utf16 ''Failed to translate document.'')))
   \<and> (ai (LocationRequest addr) = Inl e \<longrightarrow>
        resolveLocation ai addr = Inr \<lparr> latitude = None, longitude = None, mapUri = None \<rparr>)
   \<and> (resolveLocation_try ai addr = Inl e \<longrightarrow>
        resolveLocation ai addr = Inr \<lparr> latitude = None, longitude = None, mapUri = None \<rparr>)
   \<and> (\<exists>r. resolveLocation ai addr = Inr r)"
proof (intro conjI impI)
  assume "ai (translate_request base64Data mimeType targetLanguage md) = Inl e"
  then show "translateDocument ai JSON_parse base64Data mimeType targetLanguage md =
        Inl (Error (utf16 ''Failed to translate document.''))"
    by (simp add: translateDocument_def translateDocument_try_def)
next
  assume "ai (LocationRequest addr) = Inl e"
  then show "resolveLocation ai addr = Inr \<lparr> latitude = None, longitude = None, mapUri = None \<rparr>"
    by (rule resolveLocation_rejected)
next
  assume "resolveLocation_try ai addr = Inl e"
  then show "resolveLocation ai addr = Inr \<lparr> latitude = None, longitude = None, mapUri = None \<rparr>"
    by (simp add: resolveLocation_def)
next
  show "\<exists>r. resolveLocation ai addr = Inr r"
    by (cases "resolveLocation_try ai addr") (simp_all add: resolveLocation_def)
qed

theorem remote_failure_handling_witness:
  "rejects (RemoteFailure (utf16 ''503''))
       (translate_request (utf16 ''AAAA'') (utf16 ''image/png'') (utf16 ''Telugu'') speed)
     = Inl (RemoteFailure (utf16 ''503''))
   \<and> translateDocument (rejects (RemoteFailure (utf16 ''503''))) [official_text \<mapsto> official_payload]
        (utf16 ''AAAA'') (utf16 ''image/png'') (utf16 ''Telugu'') speed
     = Inl (Error (utf16 ''Failed to translate document.''))
   \<and> rejects (RemoteFailure (utf16 ''503'')) (LocationRequest (utf16 ''MG Road, Bengaluru''))
     = Inl (RemoteFailure (utf16 ''503''))
   \<and> resolveLocation (rejects (RemoteFailure (utf16 ''503''))) (utf16 ''MG Road, Bengaluru'')
     = Inr \<lparr> latitude = None, longitude = None, mapUri = None \<rparr>"
  using remote_failure_handling
    [of "rejects (RemoteFailure (utf16 ''503''))" "utf16 ''AAAA''" "utf16 ''image/png''"
        "utf16 ''Telugu''" speed "RemoteFailure (utf16 ''503'')"
        "[official_text \<mapsto> official_payload]" "utf16 ''MG Road, Bengaluru''"]
  by (simp add: rejects_def)

text \<open>
  Claim C8. \<open>generateSpeech\<close> raises the error \<open>Failed to generate speech.\<close> exactly when
  the remote call fails or the response holds no audio data (none, or the empty string);
  otherwise it returns the audio data of the response. It raises no other error.
\<close>

theorem generateSpeech_outcomes:
  "(generateSpeech ai speech = Inl (Error (utf16 ''Failed to generate speech.'')) \<longleftrightarrow>
      ((\<exists>e. ai (SpeechRequest speech) = Inl e)
       \<or> (\<exists>response. ai (SpeechRequest speech) = Inr response
             \<and> (audio_data response = None \<or> audio_data response = Some []))))
   \<and> (\<forall>response d. ai (SpeechRequest speech) = Inr response \<and> audio_data response = Some d \<and> d \<noteq> []
         \<longrightarrow> generateSpeech ai speech = Inr d)
   \<and> (\<forall>e. generateSpeech ai speech = Inl e \<longrightarrow> e = Error (utf16 ''Failed to generate speech.''))"
proof (cases "ai (SpeechRequest speech)")
  case (Inl e)
  with generateSpeech_rejected [of ai speech e] show ?thesis by simp
next
  case (Inr response)
  with generateSpeech_resolved [of ai speech response] show ?thesis by auto
qed

theorem generateSpeech_outcomes_witness:
  "audio_data audio_response = Some (utf16 ''AAAAQADA/38='')
   \<and> generateSpeech (replies audio_response) (utf16 ''Hello'') = Inr (utf16 ''AAAAQADA/38='')
   \<and> audio_data (text_response (utf16 ''Hello'')) = None
   \<and> generateSpeech (replies (text_response (utf16 ''Hello''))) (utf16 ''Hello'')
       = Inl (Error (utf16 ''Failed to generate speech.''))
   \<and> generateSpeech (rejects (RemoteFailure (utf16 ''503''))) (utf16 ''Hello'')
       = Inl (Error (utf16 ''Failed to generate speech.''))"
proof -
  have a: "audio_data audio_response = Some (utf16 ''AAAAQADA/38='')"
    by (simp add: audio_data_def audio_response_def first_def)
  have n: "audio_data (text_response (utf16 ''Hello'')) = None"
    by (simp add: audio_data_def text_response_def)
  have ne: "utf16 ''AAAAQADA/38='' \<noteq> []"
    by (simp add: utf16_eq_Nil_iff)
  have r1: "replies audio_response (SpeechRequest (utf16 ''Hello'')) = Inr audio_response"
    by (simp add: replies_def)
  have r2: "replies (text_response (utf16 ''Hello'')) (SpeechRequest (utf16 ''Hello''))
      = Inr (text_response (utf16 ''Hello''))"
    by (simp add: replies_def)
  have r3: "rejects (RemoteFailure (utf16 ''503'')) (SpeechRequest (utf16 ''Hello''))
      = Inl (RemoteFailure (utf16 ''503''))"
    by (simp add: rejects_def)
  have 1: "generateSpeech (replies audio_response) (utf16 ''Hello'') = Inr (utf16 ''AAAAQADA/38='')"
    using generateSpeech_outcomes [of "replies audio_response" "utf16 ''Hello''"] r1 a ne
    by blast
  have 2: "generateSpeech (replies (text_response (utf16 ''Hello''))) (utf16 ''Hello'')
       = Inl (Error (utf16 ''Failed to generate speech.''))"
    using generateSpeech_outcomes [of "replies (text_response (utf16 ''Hello''))" "utf16 ''Hello''"] r2 n
    by blast
  have 3: "generateSpeech (rejects (RemoteFailure (utf16 ''503''))) (utf16 ''Hello'')
       = Inl (Error (utf16 ''Failed to generate speech.''))"
    using generateSpeech_outcomes [of "rejects (RemoteFailure (utf16 ''503''))" "utf16 ''Hello''"] r3
    by blast
  from a n 1 2 3 show ?thesis by blast
qed

end
